theory Spec2Isabelle
  imports Complex_Main "HOL-Library.Multiset"
begin

section \<open>MESSAGE: stoichiometry matrix, reduction, classification, reconstruction\<close>

text \<open>
  A shallow embedding of \<^verbatim>\<open>SBMLLint/games/message.py\<close>. Python floats are idealised as
  \<^typ>\<open>real\<close>; every \<^verbatim>\<open>raise\<close> is a value \<open>Inl e\<close> of the result type
  \<open>py_error + 'a\<close>.
\<close>

subsection \<open>Errors\<close>

datatype py_error =
    NameError string
  | KeyError string
  | IndexError
  | ValueError
  | LinAlgError

subsection \<open>Constants of \<^verbatim>\<open>SBMLLint.common.constants\<close>\<close>

text \<open>
  The module \<^verbatim>\<open>cn\<close> is imported by \<^verbatim>\<open>message.py\<close>; the strings it binds are
  taken as a parameter of every function that reads them.
\<close>

record constants =
  REACTION_BOUNDARY :: string
  REACTION_1_1 :: string
  REACTION_1_n :: string
  REACTION_n_1 :: string
  REACTION_n_n :: string
  EMPTYSET :: string

definition REACTION_REDUNDANT :: string where
  "REACTION_REDUNDANT = ''reaction_redundant''"

definition REACTION_ERROR :: string where
  "REACTION_ERROR = ''reaction_error''"

subsection \<open>Data model\<close>

record Molecule =
  name :: string

record MoleculeStoichiometry =
  molecule :: Molecule
  stoichiometry :: real

text \<open>
  \<^verbatim>\<open>ReactionSummary = namedtuple('ReactionSummary', 'label reactants products category')\<close>.
  Its fields carry the names of the fields of a Reaction; it is declared first, so that
  the plain names \<open>label\<close>, \<open>reactants\<close>, \<open>products\<close>, \<open>category\<close> below read a Reaction
  and \<open>ReactionSummary.label\<close> etc. read a summary.
\<close>

record ReactionSummary =
  label :: string
  reactants :: "MoleculeStoichiometry list"
  products :: "MoleculeStoichiometry list"
  category :: string

record Reaction =
  label :: string
  reactants :: "MoleculeStoichiometry list"
  products :: "MoleculeStoichiometry list"
  category :: string

subsection \<open>Python list primitives that can raise\<close>

text \<open>\<^verbatim>\<open>xs[i]\<close> for a non-negative index: IndexError out of range.\<close>

definition getitem :: "'a list \<Rightarrow> nat \<Rightarrow> py_error + 'a" where
  "getitem xs i = (if i < length xs then Inr (xs ! i) else Inl IndexError)"

text \<open>
  A list comprehension \<^verbatim>\<open>[f(e) for e in xs]\<close> whose element expression may raise: the
  first failure, in iteration order, is the result.
\<close>

fun comprehension :: "('a \<Rightarrow> py_error + 'b) \<Rightarrow> 'a list \<Rightarrow> py_error + 'b list" where
  "comprehension f [] = Inr []"
| "comprehension f (x # xs) =
     (case f x of
        Inl e \<Rightarrow> Inl e
      | Inr y \<Rightarrow> (case comprehension f xs of Inl e \<Rightarrow> Inl e | Inr ys \<Rightarrow> Inr (y # ys)))"

text \<open>\<^verbatim>\<open>a and b\<close> with a pure left operand: \<^verbatim>\<open>b\<close> is evaluated only when \<^verbatim>\<open>a\<close> holds.\<close>

definition py_and :: "bool \<Rightarrow> (py_error + bool) \<Rightarrow> py_error + bool" where
  "py_and a b = (if a then b else Inr False)"

text \<open>\<^verbatim>\<open>sum\<close> over a list of booleans counts the \<^verbatim>\<open>True\<close> entries.\<close>

definition sum_bools :: "bool list \<Rightarrow> nat" where
  "sum_bools bs = sum_list (map (\<lambda>b. if b then 1 else 0) bs)"

subsection \<open>The category predicates (lines 22 to 38)\<close>

text \<open>
  A \<^verbatim>\<open>cn.ReactionCategory(category=..., predicate=...)\<close> is a two-field named tuple, here
  a pair. A predicate takes \<open>x\<close> (number of reactants), \<open>y\<close> (number of products), \<open>r\<close>
  and \<open>p\<close> (their stoichiometries).
\<close>

type_synonym predicate = "nat \<Rightarrow> nat \<Rightarrow> real list \<Rightarrow> real list \<Rightarrow> py_error + bool"

type_synonym ReactionCategory = "string \<times> predicate"

definition predicate_redundant :: predicate where
  "predicate_redundant x y r p = Inr (x = 0 \<and> y = 0)"

definition predicate_error :: predicate where
  "predicate_error x y r p = Inr ((x = 0 \<and> y \<noteq> 0) \<or> (x \<noteq> 0 \<and> y = 0))"

definition predicate_1_1 :: predicate where
  "predicate_1_1 x y r p = Inr (x = 1 \<and> y = 1 \<and> sum_list r = sum_list p)"

text \<open>\<^verbatim>\<open>(x==1) and (sum([r[0]<=e for e in p])==len(p))\<close>\<close>

definition predicate_1_n :: predicate where
  "predicate_1_n x y r p =
     py_and (x = 1)
       (case comprehension
               (\<lambda>e. case getitem r 0 of Inl er \<Rightarrow> Inl er | Inr r0 \<Rightarrow> Inr (r0 \<le> e)) p of
          Inl er \<Rightarrow> Inl er
        | Inr bs \<Rightarrow> Inr (sum_bools bs = length p))"

text \<open>\<^verbatim>\<open>(y==1) and (sum([p[0]<=e for e in r])==len(r))\<close>\<close>

definition predicate_n_1 :: predicate where
  "predicate_n_1 x y r p =
     py_and (y = 1)
       (case comprehension
               (\<lambda>e. case getitem p 0 of Inl er \<Rightarrow> Inl er | Inr p0 \<Rightarrow> Inr (p0 \<le> e)) r of
          Inl er \<Rightarrow> Inl er
        | Inr bs \<Rightarrow> Inr (sum_bools bs = length r))"

definition REACTION_SUMMARY_CATEGORIES :: "constants \<Rightarrow> ReactionCategory list" where
  "REACTION_SUMMARY_CATEGORIES cn =
     [(REACTION_REDUNDANT, predicate_redundant),
      (REACTION_ERROR, predicate_error),
      (REACTION_1_1 cn, predicate_1_1),
      (REACTION_1_n cn, predicate_1_n),
      (REACTION_n_1 cn, predicate_n_1)]"

subsection \<open>\<^verbatim>\<open>Message.getReactionSummaryCategory\<close> (lines 128 to 152)\<close>

text \<open>
  The \<^verbatim>\<open>for\<close> loop over the categories: the first predicate that holds returns its
  category, a predicate that raises ends the call, and \<^verbatim>\<open>cn.REACTION_n_n\<close> is returned
  when the list is exhausted.
\<close>

fun first_category ::
  "constants \<Rightarrow> ReactionCategory list \<Rightarrow> nat \<Rightarrow> nat \<Rightarrow> real list \<Rightarrow> real list \<Rightarrow> py_error + string"
where
  "first_category cn [] x y r p = Inr (REACTION_n_n cn)"
| "first_category cn (reaction_category # rest) x y r p =
     (case snd reaction_category x y r p of
        Inl e \<Rightarrow> Inl e
      | Inr b \<Rightarrow> if b then Inr (fst reaction_category) else first_category cn rest x y r p)"

definition real_entries :: "constants \<Rightarrow> MoleculeStoichiometry list \<Rightarrow> MoleculeStoichiometry list" where
  "real_entries cn ms = filter (\<lambda>r. name (molecule r) \<noteq> EMPTYSET cn) ms"

definition getReactionSummaryCategory ::
  "constants \<Rightarrow> MoleculeStoichiometry list \<Rightarrow> MoleculeStoichiometry list \<Rightarrow> py_error + string"
where
  "getReactionSummaryCategory cn rs ps =
     (let num_reactants = length (map molecule (real_entries cn rs));
          num_products = length (map molecule (real_entries cn ps));
          stoichiometry_reactants = map stoichiometry (real_entries cn rs);
          stoichiometry_products = map stoichiometry (real_entries cn ps)
      in first_category cn (REACTION_SUMMARY_CATEGORIES cn)
           num_reactants num_products stoichiometry_reactants stoichiometry_products)"

text \<open>
  The classifier in the words of the specification: counts \<open>x\<close>, \<open>y\<close> and coefficient
  lists \<open>r\<close>, \<open>p\<close>; five rules in priority order, first match wins, default many-to-many.
\<close>

definition classify_spec :: "constants \<Rightarrow> nat \<Rightarrow> nat \<Rightarrow> real list \<Rightarrow> real list \<Rightarrow> string" where
  "classify_spec cn x y r p =
     (if x = 0 \<and> y = 0 then REACTION_REDUNDANT
      else if (x = 0) \<noteq> (y = 0) then REACTION_ERROR
      else if x = 1 \<and> y = 1 \<and> sum_list r = sum_list p then REACTION_1_1 cn
      else if x = 1 \<and> list_all (\<lambda>e. hd r \<le> e) p then REACTION_1_n cn
      else if y = 1 \<and> list_all (\<lambda>e. hd p \<le> e) r then REACTION_n_1 cn
      else REACTION_n_n cn)"

subsection \<open>Tables: \<^verbatim>\<open>pandas.DataFrame\<close> and \<^verbatim>\<open>numpy.ndarray\<close>\<close>

text \<open>
  A DataFrame has row labels (\<open>index\<close>), column labels (\<open>columns\<close>) and its cells, kept
  row by row: the cell of row \<open>i\<close> and column \<open>j\<close> is \<open>vals df ! i ! j\<close>. Labels may
  repeat, as pandas allows. An ndarray carries its shape, so that an array with no row
  still has a number of columns.
\<close>

record DataFrame =
  index :: "string list"
  columns :: "string list"
  vals :: "real list list"

record ndarray =
  nrows :: nat
  ncols :: nat
  elems :: "real list list"

text \<open>A frame whose cells fill its shape: one row of cells per row label, one cell per column label.\<close>

definition wf_frame :: "DataFrame \<Rightarrow> bool" where
  "wf_frame df \<longleftrightarrow>
     length (vals df) = length (index df) \<and>
     list_all (\<lambda>cells. length cells = length (columns df)) (vals df)"

text \<open>An array whose rows fill its shape.\<close>

definition wf_array :: "ndarray \<Rightarrow> bool" where
  "wf_array a \<longleftrightarrow>
     length (elems a) = nrows a \<and> list_all (\<lambda>rw. length rw = ncols a) (elems a)"

definition positions :: "'a list \<Rightarrow> 'a \<Rightarrow> nat list" where
  "positions xs x = filter (\<lambda>i. xs ! i = x) [0..<length xs]"

text \<open>\<^verbatim>\<open>pd.DataFrame(v, index=idx, columns=cols)\<close> with a scalar \<^verbatim>\<open>v\<close>.\<close>

definition DataFrame_fill :: "real \<Rightarrow> string list \<Rightarrow> string list \<Rightarrow> DataFrame" where
  "DataFrame_fill v idx cols =
     \<lparr>index = idx, columns = cols, vals = replicate (length idx) (replicate (length cols) v)\<rparr>"

text \<open>
  \<^verbatim>\<open>pd.DataFrame(a, index=idx, columns=cols)\<close> with a two-dimensional array: pandas
  raises ValueError unless the shape of \<^verbatim>\<open>a\<close> is \<^verbatim>\<open>(len(idx), len(cols))\<close>.
\<close>

definition DataFrame_of_array :: "ndarray \<Rightarrow> string list \<Rightarrow> string list \<Rightarrow> py_error + DataFrame" where
  "DataFrame_of_array a idx cols =
     (if nrows a = length idx \<and> ncols a = length cols
      then Inr \<lparr>index = idx, columns = cols, vals = elems a\<rparr>
      else Inl ValueError)"

definition transpose_rows :: "nat \<Rightarrow> 'a list list \<Rightarrow> 'a list list" where
  "transpose_rows n rws = map (\<lambda>j. map (\<lambda>rw. rw ! j) rws) [0..<n]"

text \<open>\<^verbatim>\<open>df.T\<close>\<close>

definition T :: "DataFrame \<Rightarrow> DataFrame" where
  "T df = \<lparr>index = columns df, columns = index df,
            vals = transpose_rows (length (columns df)) (vals df)\<rparr>"

text \<open>The array a library routine sees when it is handed a DataFrame.\<close>

definition asarray :: "DataFrame \<Rightarrow> ndarray" where
  "asarray df = \<lparr>nrows = length (index df), ncols = length (columns df), elems = vals df\<rparr>"

text \<open>
  The chained assignment \<^verbatim>\<open>df[col][row] = v\<close> of line 103, as the pandas the code was
  written for executes it.
  \<^item> \<^verbatim>\<open>col\<close> labels exactly one column: \<^verbatim>\<open>df[col]\<close> is that column, and the assignment
    writes \<^verbatim>\<open>v\<close> into every row labelled \<^verbatim>\<open>row\<close> (into none when no row has that
    label: the write then enlarges the temporary column only).
  \<^item> \<^verbatim>\<open>col\<close> labels several columns: \<^verbatim>\<open>df[col]\<close> is a new frame holding copies of those
    columns, the assignment adds a column to that copy, and \<^verbatim>\<open>df\<close> is unchanged.
  \<^item> \<^verbatim>\<open>col\<close> labels no column: KeyError.
\<close>

definition setitem_chained :: "DataFrame \<Rightarrow> string \<Rightarrow> string \<Rightarrow> real \<Rightarrow> py_error + DataFrame" where
  "setitem_chained df col rw v =
     (case positions (columns df) col of
        [] \<Rightarrow> Inl (KeyError col)
      | [j] \<Rightarrow> Inr (df\<lparr>vals := map2 (\<lambda>nm cells. if nm = rw then cells[j := v] else cells)
                                  (index df) (vals df)\<rparr>)
      | _ \<Rightarrow> Inr df)"

text \<open>A \<^verbatim>\<open>for\<close> loop whose body updates a state and may raise.\<close>

fun for_each :: "('a \<Rightarrow> 's \<Rightarrow> py_error + 's) \<Rightarrow> 'a list \<Rightarrow> 's \<Rightarrow> py_error + 's" where
  "for_each body [] s = Inr s"
| "for_each body (x # xs) s =
     (case body x s of Inl e \<Rightarrow> Inl e | Inr s' \<Rightarrow> for_each body xs s')"

subsection \<open>\<^verbatim>\<open>Message.getStoichiometryMatrix\<close> (lines 88 to 104)\<close>

text \<open>
  \<^verbatim>\<open>{r.molecule.name: r.stoichiometry for r in side}\<close>: a later entry for the same name
  replaces an earlier one.
\<close>

definition stoichiometry_dict :: "MoleculeStoichiometry list \<Rightarrow> (string \<rightharpoonup> real)" where
  "stoichiometry_dict side =
     fold (\<lambda>r d. d(name (molecule r) \<mapsto> stoichiometry r)) side Map.empty"

definition dict_keys :: "MoleculeStoichiometry list \<Rightarrow> string list" where
  "dict_keys side = remdups (map (\<lambda>r. name (molecule r)) side)"

text \<open>\<^verbatim>\<open>d.get(k, dflt)\<close>\<close>

definition dict_get :: "('k \<rightharpoonup> 'v) \<Rightarrow> 'k \<Rightarrow> 'v \<Rightarrow> 'v" where
  "dict_get d k dflt = (case d k of None \<Rightarrow> dflt | Some v \<Rightarrow> v)"

text \<open>
  \<^verbatim>\<open>list(set(reactants.keys()).union(products.keys()))\<close>: each name once. Python fixes no
  order for it; the order chosen here plays no role, since the names are distinct and
  each is written to its own rows.
\<close>

definition reaction_molecules :: "Reaction \<Rightarrow> string list" where
  "reaction_molecules reaction =
     remdups (dict_keys (reactants reaction) @ dict_keys (products reaction))"

definition net_stoichiometry :: "Reaction \<Rightarrow> string \<Rightarrow> real" where
  "net_stoichiometry reaction molecule_name =
     dict_get (stoichiometry_dict (products reaction)) molecule_name 0
       - dict_get (stoichiometry_dict (reactants reaction)) molecule_name 0"

definition fill_reaction :: "Reaction \<Rightarrow> DataFrame \<Rightarrow> py_error + DataFrame" where
  "fill_reaction reaction stoichiometry_matrix =
     for_each
       (\<lambda>molecule_name df.
          setitem_chained df (label reaction) molecule_name
            (net_stoichiometry reaction molecule_name))
       (reaction_molecules reaction) stoichiometry_matrix"

definition getStoichiometryMatrix :: "Reaction list \<Rightarrow> string list \<Rightarrow> py_error + DataFrame" where
  "getStoichiometryMatrix reactions molecules =
     (let reaction_labels = map label reactions;
          stoichiometry_matrix = DataFrame_fill 0 molecules reaction_labels
      in for_each fill_reaction reactions stoichiometry_matrix)"

text \<open>
  The amount of molecule \<open>m\<close> on one side of a reaction in the words of the
  specification: the stoichiometric amount of \<open>m\<close> the side lists, 0 when \<open>m\<close> is not
  listed. It does not depend on the order of the side, and a molecule listed more than
  once counts with each of its entries.
\<close>

definition amount :: "MoleculeStoichiometry list \<Rightarrow> string \<Rightarrow> real" where
  "amount side m =
     sum_list (map stoichiometry (filter (\<lambda>e. name (molecule e) = m) side))"

text \<open>A side that lists no molecule more than once.\<close>

definition listed_once :: "MoleculeStoichiometry list \<Rightarrow> bool" where
  "listed_once side \<longleftrightarrow> distinct (map (\<lambda>e. name (molecule e)) side)"

subsection \<open>\<^verbatim>\<open>Message.__init__\<close> and its helpers (lines 52 to 86)\<close>

text \<open>
  The model handed in: its reactions, and the two lookups \<^verbatim>\<open>getReaction\<close> and
  \<^verbatim>\<open>getMolecule\<close> of the class \<^verbatim>\<open>SimpleSBML\<close>, which is not part of this module and is
  taken as given.
\<close>

record SimpleSBML =
  reactions :: "Reaction list"
  getReaction :: "string \<Rightarrow> py_error + Reaction"
  getMolecule :: "string \<Rightarrow> py_error + Molecule"

text \<open>\<^verbatim>\<open>_getNonBoundaryReactions\<close>\<close>

definition getNonBoundaryReactions :: "constants \<Rightarrow> SimpleSBML \<Rightarrow> Reaction list" where
  "getNonBoundaryReactions cn simple =
     filter (\<lambda>reaction. category reaction \<noteq> REACTION_BOUNDARY cn) (reactions simple)"

text \<open>
  \<^verbatim>\<open>_getNonBoundaryMolecules\<close>: a Python set is kept as a list without repetition;
  \<^verbatim>\<open>list(molecules)\<close> returns its elements in an order Python does not fix.
\<close>

definition set_union :: "'a list \<Rightarrow> 'a list \<Rightarrow> 'a list" where
  "set_union s t = s @ filter (\<lambda>x. x \<notin> set s) (remdups t)"

definition getNonBoundaryMolecules :: "SimpleSBML \<Rightarrow> Reaction list \<Rightarrow> string list" where
  "getNonBoundaryMolecules simple rs =
     fold (\<lambda>reaction molecules.
             set_union (set_union molecules (map (\<lambda>r. name (molecule r)) (reactants reaction)))
                       (map (\<lambda>r. name (molecule r)) (products reaction)))
          rs []"

record Message =
  simple :: SimpleSBML
  reactions :: "Reaction list"
  molecules :: "string list"
  stoichiometry_matrix :: DataFrame
  reduced_reactions :: "ReactionSummary list"

definition Message_init :: "constants \<Rightarrow> SimpleSBML \<Rightarrow> py_error + Message" where
  "Message_init cn smpl =
     (let rs = getNonBoundaryReactions cn smpl;
          ms = getNonBoundaryMolecules smpl rs
      in case getStoichiometryMatrix rs ms of
           Inl e \<Rightarrow> Inl e
         | Inr m \<Rightarrow> Inr \<lparr>simple = smpl, reactions = rs, molecules = ms,
                         stoichiometry_matrix = m, reduced_reactions = []\<rparr>)"

subsection \<open>\<^verbatim>\<open>Message.decomposeMatrix\<close> (lines 106 to 126)\<close>

text \<open>
  \<^verbatim>\<open>scipy.linalg.lu\<close> and \<^verbatim>\<open>scipy.linalg.inv\<close> are library routines. The function takes
  them as a parameter: \<open>lu\<close> returns the three factors \<open>(P, L, U)\<close> or raises, \<open>inv\<close>
  returns the inverse or raises.
\<close>

record linalg =
  lu :: "ndarray \<Rightarrow> py_error + (ndarray \<times> ndarray \<times> ndarray)"
  inv :: "ndarray \<Rightarrow> py_error + ndarray"

text \<open>\<^verbatim>\<open>list(k).index(v)\<close>: the first position holding \<^verbatim>\<open>v\<close>, ValueError when there is none.\<close>

definition list_index :: "'a list \<Rightarrow> 'a \<Rightarrow> py_error + nat" where
  "list_index xs x = (case positions xs x of [] \<Rightarrow> Inl ValueError | i # _ \<Rightarrow> Inr i)"

text \<open>
  The function is a generator that yields the lower factor and then the reduced
  matrix. Every statement before the first \<^verbatim>\<open>yield\<close> runs when the first value is asked
  for, so both values exist, or an error is raised, at that moment: the model returns
  the pair.
\<close>

definition decomposeMatrix :: "linalg \<Rightarrow> DataFrame \<Rightarrow> py_error + (ndarray \<times> DataFrame)" where
  "decomposeMatrix la mat_df =
     (let mat_t = T mat_df;
          idx_mat_t = index mat_t
      in case lu la (asarray mat_t) of
           Inl e \<Rightarrow> Inl e
         | Inr mat_lu \<Rightarrow>
       (case inv la (fst mat_lu) of
           Inl e \<Rightarrow> Inl e
         | Inr p_inv \<Rightarrow>
       (case comprehension (\<lambda>k. list_index k 1) (elems p_inv) of
           Inl e \<Rightarrow> Inl e
         | Inr pivot_index \<Rightarrow>
       (case comprehension (getitem idx_mat_t) pivot_index of
           Inl e \<Rightarrow> Inl e
         | Inr new_idx_mat_t \<Rightarrow>
       (case DataFrame_of_array (snd (snd mat_lu)) new_idx_mat_t (columns mat_t) of
           Inl e \<Rightarrow> Inl e
         | Inr row_reduced_t \<Rightarrow> Inr (fst (snd mat_lu), T row_reduced_t))))))"

text \<open>
  The \<open>n \<times> n\<close> permutation matrix whose row \<open>i\<close> has its single 1 in column \<open>piv ! i\<close>.
\<close>

definition unit_row :: "nat \<Rightarrow> nat \<Rightarrow> real list" where
  "unit_row n i = map (\<lambda>c. if c = i then 1 else 0) [0..<n]"

definition permutation_matrix :: "nat \<Rightarrow> nat list \<Rightarrow> ndarray" where
  "permutation_matrix n piv = \<lparr>nrows = n, ncols = n, elems = map (unit_row n) piv\<rparr>"

subsection \<open>A decomposition routine to run the reducer on concrete matrices\<close>

text \<open>
  Modelled from the spec: the decomposition routine \<^verbatim>\<open>scipy.linalg.lu\<close> and the matrix
  inverse \<^verbatim>\<open>scipy.linalg.inv\<close>, which are library calls outside the repository. The
  specification describes the first as the standard Gaussian elimination with partial
  pivoting that factors the \<open>m \<times> n\<close> argument into a permutation factor (\<open>m \<times> m\<close>), a
  lower-triangular factor (\<open>m \<times> k\<close>) and an upper-triangular factor (\<open>k \<times> n\<close>), \<open>k = min m n\<close>.
  In column \<open>j\<close> the pivot is the first row at or below \<open>j\<close> with the largest absolute
  value; rows are swapped, and the rows below are reduced. Arithmetic is exact.
\<close>

definition swap :: "'a list \<Rightarrow> nat \<Rightarrow> nat \<Rightarrow> 'a list" where
  "swap xs i j = xs[i := xs ! j, j := xs ! i]"

definition pivot_row :: "real list list \<Rightarrow> nat \<Rightarrow> nat" where
  "pivot_row rws j =
     fold (\<lambda>i best. if \<bar>rws ! best ! j\<bar> < \<bar>rws ! i ! j\<bar> then i else best)
          [Suc j..<length rws] j"

definition eliminate :: "real list \<Rightarrow> real list \<Rightarrow> nat \<Rightarrow> real list" where
  "eliminate prow rw j =
     (let f = rw ! j / prow ! j
      in map (\<lambda>c. if c < j then rw ! c else if c = j then f else rw ! c - f * prow ! c)
             [0..<length rw])"

definition lu_step :: "nat \<Rightarrow> nat list \<times> real list list \<Rightarrow> nat list \<times> real list list" where
  "lu_step j st =
     (let p = pivot_row (snd st) j;
          perm = swap (fst st) j p;
          rws = swap (snd st) j p
      in if rws ! j ! j = 0 then (perm, rws)
         else (perm, map (\<lambda>i. if i \<le> j then rws ! i else eliminate (rws ! j) (rws ! i) j)
                         [0..<length rws]))"

definition lu_partial_pivoting :: "ndarray \<Rightarrow> ndarray \<times> ndarray \<times> ndarray" where
  "lu_partial_pivoting a =
     (let m = nrows a; n = ncols a; k = min m n;
          st = fold lu_step [0..<k] ([0..<m], elems a);
          perm = fst st; rws = snd st
      in (\<lparr>nrows = m, ncols = m,
           elems = map (\<lambda>i. map (\<lambda>c. if perm ! c = i then 1 else 0) [0..<m]) [0..<m]\<rparr>,
          \<lparr>nrows = m, ncols = k,
           elems = map (\<lambda>i. map (\<lambda>c. if c < i then rws ! i ! c else if c = i then 1 else 0)
                                [0..<k]) [0..<m]\<rparr>,
          \<lparr>nrows = k, ncols = n,
           elems = map (\<lambda>i. map (\<lambda>c. if i \<le> c then rws ! i ! c else 0) [0..<n]) [0..<k]\<rparr>))"

text \<open>
  The inverse is modelled on permutation matrices only, where it is the transpose;
  \<open>decomposeMatrix\<close> hands it nothing but the permutation factor.
\<close>

definition is_permutation_matrix :: "ndarray \<Rightarrow> bool" where
  "is_permutation_matrix a \<longleftrightarrow>
     nrows a = ncols a \<and> length (elems a) = nrows a \<and>
     list_all (\<lambda>rw. length rw = ncols a \<and> list_all (\<lambda>x. x = 0 \<or> x = 1) rw
                    \<and> length (positions rw 1) = 1) (elems a) \<and>
     list_all (\<lambda>j. length (filter (\<lambda>rw. rw ! j = 1) (elems a)) = 1) [0..<ncols a]"

definition transpose_array :: "ndarray \<Rightarrow> ndarray" where
  "transpose_array a =
     \<lparr>nrows = ncols a, ncols = nrows a, elems = transpose_rows (ncols a) (elems a)\<rparr>"

definition inv_permutation :: "ndarray \<Rightarrow> py_error + ndarray" where
  "inv_permutation a = (if is_permutation_matrix a then Inr (transpose_array a) else Inl LinAlgError)"

definition scipy_linalg :: linalg where
  "scipy_linalg = \<lparr>lu = (\<lambda>a. Inr (lu_partial_pivoting a)), inv = inv_permutation\<rparr>"

subsection \<open>\<^verbatim>\<open>Message.convertMatrixToReactions\<close> (lines 154 to 178)\<close>

text \<open>
  The names bound at module level of \<^verbatim>\<open>message.py\<close>: its imports and its top-level
  assignments and class. A bare name inside a method body that is not a local is
  looked up here (and among the builtins); the attributes of the enclosing class are
  not in scope. A name that is not found raises NameError.
\<close>

definition module_globals :: "string list" where
  "module_globals =
     [''cn'', ''Molecule'', ''MoleculeStoichiometry'', ''Reaction'', ''SOM'', ''SimpleSBML'',
      ''collections'', ''itertools'', ''nx'', ''np'', ''pd'', ''scipy'',
      ''ReactionSummary'', ''REACTION_REDUNDANT'', ''REACTION_ERROR'',
      ''REACTION_SUMMARY_CATEGORIES'', ''Message'']"

definition global_name :: "string \<Rightarrow> 'a \<Rightarrow> py_error + 'a" where
  "global_name nm v = (if nm \<in> set module_globals then Inr v else Inl (NameError nm))"

text \<open>
  \<^verbatim>\<open>mat_df[reaction_name]\<close>: the column as a Series when the label names one column, a
  frame of the columns carrying the label when it names several, KeyError when it
  names none.
\<close>

datatype selection = Series "string list" "real list" | Frame DataFrame

definition getitem_column :: "DataFrame \<Rightarrow> string \<Rightarrow> py_error + selection" where
  "getitem_column df col =
     (case positions (columns df) col of
        [] \<Rightarrow> Inl (KeyError col)
      | [j] \<Rightarrow> Inr (Series (index df) (map (\<lambda>cells. cells ! j) (vals df)))
      | j # j' # js \<Rightarrow>
          Inr (Frame \<lparr>index = index df,
                      columns = map (\<lambda>c. columns df ! c) (j # j' # js),
                      vals = map (\<lambda>cells. map (\<lambda>c. cells ! c) (j # j' # js)) (vals df)\<rparr>))"

fun selection_index :: "selection \<Rightarrow> string list" where
  "selection_index (Series idx vs) = idx"
| "selection_index (Frame d) = index d"

text \<open>
  \<^verbatim>\<open>reduced_reaction_series[molecule]\<close> where a number is needed (it is compared with 0).
  On a Series: the cell when the label names one row; when it names several the result
  is a Series, whose comparison has no truth value (ValueError). On a frame the key is
  looked up among the column labels: KeyError when absent, otherwise the result is a
  frame, again without a truth value.
\<close>

fun cell_of :: "selection \<Rightarrow> string \<Rightarrow> py_error + real" where
  "cell_of (Series idx vs) m =
     (case positions idx m of
        [] \<Rightarrow> Inl (KeyError m)
      | [i] \<Rightarrow> Inr (vs ! i)
      | _ \<Rightarrow> Inl ValueError)"
| "cell_of (Frame d) m = (if m \<in> set (columns d) then Inl ValueError else Inl (KeyError m))"

text \<open>
  \<^verbatim>\<open>[f(e) for e in xs if c(e)]\<close>: for each element the condition is evaluated first, the
  element expression only when it holds.
\<close>

fun comprehension_if ::
  "('a \<Rightarrow> py_error + bool) \<Rightarrow> ('a \<Rightarrow> py_error + 'b) \<Rightarrow> 'a list \<Rightarrow> py_error + 'b list"
where
  "comprehension_if c f [] = Inr []"
| "comprehension_if c f (x # xs) =
     (case c x of
        Inl e \<Rightarrow> Inl e
      | Inr b \<Rightarrow>
          if b then
            (case f x of
               Inl e \<Rightarrow> Inl e
             | Inr y \<Rightarrow>
                 (case comprehension_if c f xs of Inl e \<Rightarrow> Inl e | Inr ys \<Rightarrow> Inr (y # ys)))
          else comprehension_if c f xs)"

definition column_reactants :: "SimpleSBML \<Rightarrow> selection \<Rightarrow> py_error + MoleculeStoichiometry list" where
  "column_reactants smpl reduced_reaction_series =
     comprehension_if
       (\<lambda>m. case cell_of reduced_reaction_series m of Inl e \<Rightarrow> Inl e | Inr v \<Rightarrow> Inr (v < 0))
       (\<lambda>m. case getMolecule smpl m of
               Inl e \<Rightarrow> Inl e
             | Inr mol \<Rightarrow>
                 (case cell_of reduced_reaction_series m of
                    Inl e \<Rightarrow> Inl e
                  | Inr v \<Rightarrow> Inr \<lparr>molecule = mol, stoichiometry = \<bar>v\<bar>\<rparr>))
       (selection_index reduced_reaction_series)"

definition column_products :: "SimpleSBML \<Rightarrow> selection \<Rightarrow> py_error + MoleculeStoichiometry list" where
  "column_products smpl reduced_reaction_series =
     comprehension_if
       (\<lambda>m. case cell_of reduced_reaction_series m of Inl e \<Rightarrow> Inl e | Inr v \<Rightarrow> Inr (0 < v))
       (\<lambda>m. case getMolecule smpl m of
               Inl e \<Rightarrow> Inl e
             | Inr mol \<Rightarrow>
                 (case cell_of reduced_reaction_series m of
                    Inl e \<Rightarrow> Inl e
                  | Inr v \<Rightarrow> Inr \<lparr>molecule = mol, stoichiometry = v\<rparr>))
       (selection_index reduced_reaction_series)"

text \<open>
  One pass of the loop body. The last argument of \<^verbatim>\<open>ReactionSummary(...)\<close> calls the bare
  name \<^verbatim>\<open>getReactionSummaryCategory\<close> (line 177 has no \<^verbatim>\<open>self.\<close>), which is resolved
  among the module globals after the reactant and product lists have been built.
\<close>

definition convert_column ::
  "constants \<Rightarrow> SimpleSBML \<Rightarrow> DataFrame \<Rightarrow> string \<Rightarrow> py_error + ReactionSummary"
where
  "convert_column cn smpl mat_df reaction_name =
     (case getReaction smpl reaction_name of
        Inl e \<Rightarrow> Inl e
      | Inr reaction \<Rightarrow>
     (case getitem_column mat_df reaction_name of
        Inl e \<Rightarrow> Inl e
      | Inr reduced_reaction_series \<Rightarrow>
     (case column_reactants smpl reduced_reaction_series of
        Inl e \<Rightarrow> Inl e
      | Inr rs \<Rightarrow>
     (case column_products smpl reduced_reaction_series of
        Inl e \<Rightarrow> Inl e
      | Inr ps \<Rightarrow>
     (case global_name ''getReactionSummaryCategory'' (getReactionSummaryCategory cn) of
        Inl e \<Rightarrow> Inl e
      | Inr classify \<Rightarrow>
     (case classify rs ps of
        Inl e \<Rightarrow> Inl e
      | Inr c \<Rightarrow>
          Inr \<lparr>ReactionSummary.label = reaction_name, ReactionSummary.reactants = rs,
               ReactionSummary.products = ps, ReactionSummary.category = c\<rparr>))))))"

text \<open>
  The loop over \<^verbatim>\<open>mat_df.columns\<close> appends one summary per pass; a pass that raises ends
  the call.
\<close>

definition convertMatrixToReactions ::
  "constants \<Rightarrow> SimpleSBML \<Rightarrow> DataFrame \<Rightarrow> py_error + ReactionSummary list"
where
  "convertMatrixToReactions cn smpl mat_df =
     comprehension (convert_column cn smpl mat_df) (columns mat_df)"

subsection \<open>Concrete inputs\<close>

text \<open>One choice of the strings of \<^verbatim>\<open>cn\<close>, used to run the functions on examples.\<close>

definition cn_example :: constants where
  "cn_example =
     \<lparr>REACTION_BOUNDARY = ''reaction_boundary'', REACTION_1_1 = ''reaction_1_1'',
      REACTION_1_n = ''reaction_1_n'', REACTION_n_1 = ''reaction_n_1'',
      REACTION_n_n = ''reaction_n_n'', EMPTYSET = ''EmptySet''\<rparr>"

definition entry :: "string \<Rightarrow> real \<Rightarrow> MoleculeStoichiometry" where
  "entry nm s = \<lparr>molecule = \<lparr>name = nm\<rparr>, stoichiometry = s\<rparr>"

text \<open>Reactions: R1 is A \<open>\<rightarrow>\<close> B; R2 is 2 A \<open>\<rightarrow>\<close> C + 2 A; R3 is a boundary reaction that
  alone mentions D; and a second reaction labelled R1.\<close>

definition ex_R1 :: Reaction where
  "ex_R1 = \<lparr>label = ''R1'', reactants = [entry ''A'' 1], products = [entry ''B'' 1],
            category = ''reaction_1_1''\<rparr>"

definition ex_R2 :: Reaction where
  "ex_R2 = \<lparr>label = ''R2'', reactants = [entry ''A'' 2],
            products = [entry ''C'' 1, entry ''A'' 2], category = ''reaction_1_n''\<rparr>"

definition ex_R3 :: Reaction where
  "ex_R3 = \<lparr>label = ''R3'', reactants = [entry ''D'' 1], products = [],
            category = ''reaction_boundary''\<rparr>"

definition ex_R1_again :: Reaction where
  "ex_R1_again = \<lparr>label = ''R1'', reactants = [entry ''B'' 1], products = [entry ''C'' 1],
                  category = ''reaction_1_1''\<rparr>"

text \<open>A reaction that lists A twice among its reactants: A + A \<open>\<rightarrow>\<close> B.\<close>

definition ex_A_twice :: Reaction where
  "ex_A_twice = \<lparr>label = ''R1'', reactants = [entry ''A'' 1, entry ''A'' 1],
                 products = [entry ''B'' 1], category = ''reaction_n_1''\<rparr>"

text \<open>A model with these reactions and lookups by name.\<close>

definition ex_simple :: SimpleSBML where
  "ex_simple =
     \<lparr>SimpleSBML.reactions = [ex_R1, ex_R3, ex_R2],
      getReaction = (\<lambda>nm. case List.find (\<lambda>r. label r = nm) [ex_R1, ex_R3, ex_R2] of
                             None \<Rightarrow> Inl (KeyError nm) | Some r \<Rightarrow> Inr r),
      getMolecule = (\<lambda>nm. Inr \<lparr>name = nm\<rparr>)\<rparr>"

text \<open>
  Matrices: the stoichiometry matrix of A \<open>\<rightarrow>\<close> B and 2 A \<open>\<rightarrow>\<close> C with rows A, B, C; a matrix
  with one reaction and no molecule; one with two molecules and no reaction; one with a
  single column.
\<close>

definition ex_matrix :: DataFrame where
  "ex_matrix = \<lparr>index = [''A'', ''B'', ''C''], columns = [''R1'', ''R2''],
                vals = [[- 1, - 2], [1, 0], [0, 1]]\<rparr>"

definition ex_no_molecules :: DataFrame where
  "ex_no_molecules = \<lparr>index = [], columns = [''R1''], vals = []\<rparr>"

definition ex_no_reactions :: DataFrame where
  "ex_no_reactions = \<lparr>index = [''A'', ''B''], columns = [], vals = [[], []]\<rparr>"

definition ex_one_column :: DataFrame where
  "ex_one_column = \<lparr>index = [''A'', ''B''], columns = [''R1''], vals = [[- 1], [1]]\<rparr>"

section \<open>Properties of the classifier\<close>

lemma comprehension_total:
  "(\<And>x. x \<in> set xs \<Longrightarrow> f x = Inr (g x)) \<Longrightarrow> comprehension f xs = Inr (map g xs)"
  by (induction xs) simp_all

lemma sum_bools_le: "sum_bools bs \<le> length bs"
  unfolding sum_bools_def by (induction bs) simp_all

lemma sum_bools_all: "sum_bools bs = length bs \<longleftrightarrow> list_all (\<lambda>b. b) bs"
proof (induction bs)
  case Nil
  show ?case by (simp add: sum_bools_def)
next
  case (Cons b bs)
  have le: "sum_bools bs \<le> length bs" by (rule sum_bools_le)
  have step: "sum_bools (b # bs) = (if b then 1 else 0) + sum_bools bs"
    by (simp add: sum_bools_def)
  show ?case
  proof (cases b)
    case True
    with Cons step show ?thesis by simp
  next
    case False
    with step le show ?thesis by simp
  qed
qed

lemma predicate_1_n_total:
  "r \<noteq> [] \<Longrightarrow> predicate_1_n x y r p = Inr (x = 1 \<and> list_all (\<lambda>e. hd r \<le> e) p)"
proof -
  assume ne: "r \<noteq> []"
  then have g: "getitem r 0 = Inr (hd r)"
    by (cases r) (simp_all add: getitem_def)
  have c: "comprehension (\<lambda>e. case getitem r 0 of Inl er \<Rightarrow> Inl er | Inr r0 \<Rightarrow> Inr (r0 \<le> e)) p
           = Inr (map (\<lambda>e. hd r \<le> e) p)"
    by (rule comprehension_total) (simp add: g)
  have "sum_bools (map (\<lambda>e. hd r \<le> e) p) = length p \<longleftrightarrow> list_all (\<lambda>e. hd r \<le> e) p"
    using sum_bools_all [of "map (\<lambda>e. hd r \<le> e) p"] by (simp add: list_all_iff)
  then show ?thesis
    by (simp add: predicate_1_n_def py_and_def c)
qed

lemma predicate_n_1_total:
  "p \<noteq> [] \<Longrightarrow> predicate_n_1 x y r p = Inr (y = 1 \<and> list_all (\<lambda>e. hd p \<le> e) r)"
proof -
  assume ne: "p \<noteq> []"
  then have g: "getitem p 0 = Inr (hd p)"
    by (cases p) (simp_all add: getitem_def)
  have c: "comprehension (\<lambda>e. case getitem p 0 of Inl er \<Rightarrow> Inl er | Inr p0 \<Rightarrow> Inr (p0 \<le> e)) r
           = Inr (map (\<lambda>e. hd p \<le> e) r)"
    by (rule comprehension_total) (simp add: g)
  have "sum_bools (map (\<lambda>e. hd p \<le> e) r) = length r \<longleftrightarrow> list_all (\<lambda>e. hd p \<le> e) r"
    using sum_bools_all [of "map (\<lambda>e. hd p \<le> e) r"] by (simp add: list_all_iff)
  then show ?thesis
    by (simp add: predicate_n_1_def py_and_def c)
qed

text \<open>
  When the counts are the lengths of the coefficient lists, as they are inside
  \<open>getReactionSummaryCategory\<close>, the loop never raises and agrees with the rules of the
  specification.
\<close>

lemma first_category_spec:
  "first_category cn (REACTION_SUMMARY_CATEGORIES cn) (length r) (length p) r p
     = Inr (classify_spec cn (length r) (length p) r p)"
proof (cases "r = []")
  case True
  then show ?thesis
    by (cases "p = []")
       (simp_all add: REACTION_SUMMARY_CATEGORIES_def classify_spec_def
          predicate_redundant_def predicate_error_def)
next
  case rne: False
  show ?thesis
  proof (cases "p = []")
    case True
    with rne show ?thesis
      by (simp add: REACTION_SUMMARY_CATEGORIES_def classify_spec_def
            predicate_redundant_def predicate_error_def)
  next
    case pne: False
    from rne pne show ?thesis
      by (simp add: REACTION_SUMMARY_CATEGORIES_def classify_spec_def
            predicate_redundant_def predicate_error_def predicate_1_1_def
            predicate_1_n_total predicate_n_1_total)
  qed
qed

lemma getReactionSummaryCategory_spec:
  "getReactionSummaryCategory cn rs ps =
     Inr (classify_spec cn (length (real_entries cn rs)) (length (real_entries cn ps))
            (map stoichiometry (real_entries cn rs)) (map stoichiometry (real_entries cn ps)))"
  using first_category_spec
          [of cn "map stoichiometry (real_entries cn rs)" "map stoichiometry (real_entries cn ps)"]
  by (simp add: getReactionSummaryCategory_def Let_def)


text \<open>
  C6. The classifier evaluates its five predicates in priority order, first match
  winning: with \<open>x\<close> real reactants and \<open>y\<close> real products it returns redundant when
  \<open>x = 0\<close> and \<open>y = 0\<close>; otherwise error when exactly one of them is 0; otherwise
  one-to-one when \<open>x = 1\<close>, \<open>y = 1\<close> and the coefficient sums agree; otherwise one-to-many
  when \<open>x = 1\<close> and no product coefficient is below the reactant's; otherwise many-to-one
  when \<open>y = 1\<close> and no reactant coefficient is below the product's; otherwise
  many-to-many. With no real reactant and no real product the answer is redundant
  whatever the later rules say.
\<close>

theorem classifier_priority_order:
  "getReactionSummaryCategory cn rs ps =
     Inr (classify_spec cn (length (real_entries cn rs)) (length (real_entries cn ps))
            (map stoichiometry (real_entries cn rs)) (map stoichiometry (real_entries cn ps)))
   \<and> (real_entries cn rs = [] \<and> real_entries cn ps = []
        \<longrightarrow> getReactionSummaryCategory cn rs ps = Inr REACTION_REDUNDANT)"
proof -
  have eq: "getReactionSummaryCategory cn rs ps =
     Inr (classify_spec cn (length (real_entries cn rs)) (length (real_entries cn ps))
            (map stoichiometry (real_entries cn rs)) (map stoichiometry (real_entries cn ps)))"
    by (rule getReactionSummaryCategory_spec)
  then show ?thesis
    by (simp add: classify_spec_def)
qed

theorem classifier_priority_order_witness:
  "getReactionSummaryCategory cn_example [entry ''A'' 2, entry ''EmptySet'' 1] [entry ''B'' 2]
     = Inr (classify_spec cn_example 1 1 [2] [2])
   \<and> classify_spec cn_example 1 1 [2] [2] = ''reaction_1_1''
   \<and> real_entries cn_example [entry ''EmptySet'' 1] = []
   \<and> getReactionSummaryCategory cn_example [entry ''EmptySet'' 1] [] = Inr REACTION_REDUNDANT"
  using classifier_priority_order [of cn_example "[entry ''A'' 2, entry ''EmptySet'' 1]" "[entry ''B'' 2]"]
        classifier_priority_order [of cn_example "[entry ''EmptySet'' 1]" "[]"]
  by (simp add: real_entries_def cn_example_def entry_def classify_spec_def)

text \<open>
  C7. The classifier is total: whatever the two lists, it returns (it does not raise,
  although the one-to-many and many-to-one predicates read \<open>r[0]\<close> and \<open>p[0]\<close>) one of
  the six category names; its answer depends on the entries that are not the empty-set
  placeholder only; classifying empty-set \<open>\<rightarrow>\<close> A gives error, and so does
  A + B \<open>\<rightarrow>\<close> empty-set. The function is a pure function of the two lists: the source
  reads them in four list comprehensions and assigns to neither.
\<close>

theorem classifier_total:
  "(\<exists>c. getReactionSummaryCategory cn rs ps = Inr c
        \<and> c \<in> {REACTION_REDUNDANT, REACTION_ERROR, REACTION_1_1 cn, REACTION_1_n cn,
               REACTION_n_1 cn, REACTION_n_n cn})
   \<and> getReactionSummaryCategory cn rs ps
       = getReactionSummaryCategory cn (real_entries cn rs) (real_entries cn ps)
   \<and> (a \<noteq> EMPTYSET cn \<longrightarrow>
        getReactionSummaryCategory cn [entry (EMPTYSET cn) s] [entry a t] = Inr REACTION_ERROR)
   \<and> (a \<noteq> EMPTYSET cn \<and> b \<noteq> EMPTYSET cn \<longrightarrow>
        getReactionSummaryCategory cn [entry a s, entry b t] [entry (EMPTYSET cn) u]
          = Inr REACTION_ERROR)"
proof -
  have member: "classify_spec cn x y r p \<in> {REACTION_REDUNDANT, REACTION_ERROR, REACTION_1_1 cn,
                  REACTION_1_n cn, REACTION_n_1 cn, REACTION_n_n cn}" for x y r p
    by (simp add: classify_spec_def)
  have total: "\<exists>c. getReactionSummaryCategory cn rs ps = Inr c
        \<and> c \<in> {REACTION_REDUNDANT, REACTION_ERROR, REACTION_1_1 cn, REACTION_1_n cn,
               REACTION_n_1 cn, REACTION_n_n cn}"
    using member by (simp only: getReactionSummaryCategory_spec) blast
  have idem: "real_entries cn (real_entries cn xs) = real_entries cn xs" for xs
    by (simp add: real_entries_def)
  have filtered: "getReactionSummaryCategory cn rs ps
       = getReactionSummaryCategory cn (real_entries cn rs) (real_entries cn ps)"
    by (simp only: getReactionSummaryCategory_spec idem)
  have ex1: "a \<noteq> EMPTYSET cn \<longrightarrow>
        getReactionSummaryCategory cn [entry (EMPTYSET cn) s] [entry a t] = Inr REACTION_ERROR"
    by (simp add: getReactionSummaryCategory_spec real_entries_def entry_def classify_spec_def)
  have ex2: "a \<noteq> EMPTYSET cn \<and> b \<noteq> EMPTYSET cn \<longrightarrow>
        getReactionSummaryCategory cn [entry a s, entry b t] [entry (EMPTYSET cn) u]
          = Inr REACTION_ERROR"
    by (simp add: getReactionSummaryCategory_spec real_entries_def entry_def classify_spec_def)
  from total filtered ex1 ex2 show ?thesis by blast
qed

theorem classifier_total_witness:
  "(\<exists>c. getReactionSummaryCategory cn_example [entry ''A'' 1, entry ''B'' 3] [entry ''C'' 2] = Inr c
        \<and> c \<in> {REACTION_REDUNDANT, REACTION_ERROR, ''reaction_1_1'', ''reaction_1_n'',
               ''reaction_n_1'', ''reaction_n_n''})
   \<and> ''A'' \<noteq> EMPTYSET cn_example \<and> ''B'' \<noteq> EMPTYSET cn_example
   \<and> getReactionSummaryCategory cn_example [entry ''EmptySet'' 1] [entry ''A'' 1]
        = Inr REACTION_ERROR
   \<and> getReactionSummaryCategory cn_example [entry ''A'' 1, entry ''B'' 1] [entry ''EmptySet'' 1]
        = Inr REACTION_ERROR"
proof -
  note t = classifier_total [of cn_example "[entry ''A'' 1, entry ''B'' 3]" "[entry ''C'' 2]"
                                "''A''" 1 1 "''B''" 1]
  have total: "\<exists>c. getReactionSummaryCategory cn_example [entry ''A'' 1, entry ''B'' 3] [entry ''C'' 2] = Inr c
        \<and> c \<in> {REACTION_REDUNDANT, REACTION_ERROR, ''reaction_1_1'', ''reaction_1_n'',
               ''reaction_n_1'', ''reaction_n_n''}"
    using t [THEN conjunct1] by (simp add: cn_example_def)
  have ne: "''A'' \<noteq> EMPTYSET cn_example \<and> ''B'' \<noteq> EMPTYSET cn_example"
    by (simp add: cn_example_def)
  have e: "EMPTYSET cn_example = ''EmptySet''"
    by (simp add: cn_example_def)
  have ex1: "getReactionSummaryCategory cn_example [entry ''EmptySet'' 1] [entry ''A'' 1]
        = Inr REACTION_ERROR"
    using t [THEN conjunct2, THEN conjunct2, THEN conjunct1] ne by (simp only: e) simp
  have ex2: "getReactionSummaryCategory cn_example [entry ''A'' 1, entry ''B'' 1] [entry ''EmptySet'' 1]
        = Inr REACTION_ERROR"
    using t [THEN conjunct2, THEN conjunct2, THEN conjunct2] ne by (simp only: e) simp
  from total ne ex1 ex2 show ?thesis by blast
qed

text \<open>
  C10. With exactly one real reactant and exactly one real product whose coefficients
  differ, the product's being the larger, the classifier returns one-to-many (so
  neither many-to-many nor error, whenever those names differ from it): the one-to-many
  predicate does not ask for more than one product.
\<close>

theorem unequal_one_to_one_is_one_to_many:
  assumes "real_entries cn rs = [a]" and "real_entries cn ps = [b]"
    and "stoichiometry a \<noteq> stoichiometry b" and "stoichiometry a \<le> stoichiometry b"
  shows "getReactionSummaryCategory cn rs ps = Inr (REACTION_1_n cn)
     \<and> (REACTION_1_n cn \<noteq> REACTION_n_n cn
          \<longrightarrow> getReactionSummaryCategory cn rs ps \<noteq> Inr (REACTION_n_n cn))
     \<and> (REACTION_1_n cn \<noteq> REACTION_ERROR
          \<longrightarrow> getReactionSummaryCategory cn rs ps \<noteq> Inr REACTION_ERROR)"
  using assms by (simp add: getReactionSummaryCategory_spec classify_spec_def)

theorem unequal_one_to_one_is_one_to_many_witness:
  "real_entries cn_example [entry ''A'' 1] = [entry ''A'' 1]
   \<and> real_entries cn_example [entry ''B'' 2] = [entry ''B'' 2]
   \<and> stoichiometry (entry ''A'' 1) \<noteq> stoichiometry (entry ''B'' 2)
   \<and> stoichiometry (entry ''A'' 1) \<le> stoichiometry (entry ''B'' 2)
   \<and> getReactionSummaryCategory cn_example [entry ''A'' 1] [entry ''B'' 2] = Inr ''reaction_1_n''
   \<and> getReactionSummaryCategory cn_example [entry ''A'' 1] [entry ''B'' 2] \<noteq> Inr ''reaction_n_n''
   \<and> getReactionSummaryCategory cn_example [entry ''A'' 1] [entry ''B'' 2] \<noteq> Inr REACTION_ERROR"
proof -
  have h1: "real_entries cn_example [entry ''A'' 1] = [entry ''A'' 1]"
    by (simp add: real_entries_def cn_example_def entry_def)
  have h2: "real_entries cn_example [entry ''B'' 2] = [entry ''B'' 2]"
    by (simp add: real_entries_def cn_example_def entry_def)
  have h3: "stoichiometry (entry ''A'' 1) \<noteq> stoichiometry (entry ''B'' 2)"
    by (simp add: entry_def)
  have h4: "stoichiometry (entry ''A'' 1) \<le> stoichiometry (entry ''B'' 2)"
    by (simp add: entry_def)
  from unequal_one_to_one_is_one_to_many [OF h1 h2 h3 h4] h1 h2 h3 h4
  show ?thesis by (simp add: cn_example_def REACTION_ERROR_def)
qed

section \<open>Properties of the matrix builder\<close>

subsection \<open>Positions and cell updates\<close>

lemma filter_eq_upt: "j < n \<Longrightarrow> filter (\<lambda>i. i = j) [0..<n] = [j]"
proof (induction n)
  case 0
  then show ?case by simp
next
  case (Suc n)
  show ?case
  proof (cases "j = n")
    case True
    have "filter (\<lambda>i. i = n) [0..<n] = []" by (simp add: filter_empty_conv)
    with True show ?thesis by simp
  next
    case False
    with Suc show ?thesis by simp
  qed
qed

lemma positions_distinct:
  assumes "distinct xs" and "j < length xs"
  shows "positions xs (xs ! j) = [j]"
proof -
  have "filter (\<lambda>i. xs ! i = xs ! j) [0..<length xs] = filter (\<lambda>i. i = j) [0..<length xs]"
    using assms by (intro filter_cong) (auto simp: nth_eq_iff_index_eq)
  with assms(2) show ?thesis by (simp add: positions_def filter_eq_upt)
qed

lemma positions_Nil_iff: "positions xs x = [] \<longleftrightarrow> x \<notin> set xs"
  by (auto simp: positions_def filter_empty_conv in_set_conv_nth)

lemma positions_bound: "j \<in> set (positions xs x) \<Longrightarrow> j < length xs \<and> xs ! j = x"
  by (auto simp: positions_def)

lemma wf_frame_fill: "wf_frame (DataFrame_fill v idx cols)"
  by (simp add: wf_frame_def DataFrame_fill_def list_all_iff)

lemma wf_frame_row: "wf_frame df \<Longrightarrow> i < length (index df) \<Longrightarrow> length (vals df ! i) = length (columns df)"
  by (simp add: wf_frame_def list_all_length)

lemma setitem_chained_unique:
  assumes pos: "positions (columns df) col = [j]" and wf: "wf_frame df"
  shows "\<exists>df'. setitem_chained df col rw v = Inr df'
           \<and> index df' = index df \<and> columns df' = columns df \<and> wf_frame df'
           \<and> (\<forall>i<length (index df). \<forall>c<length (columns df).
                 vals df' ! i ! c = (if index df ! i = rw \<and> c = j then v else vals df ! i ! c))"
proof -
  let ?df' = "df\<lparr>vals := map2 (\<lambda>nm cells. if nm = rw then cells[j := v] else cells)
                                  (index df) (vals df)\<rparr>"
  have len: "length (vals df) = length (index df)" using wf by (simp add: wf_frame_def)
  have run: "setitem_chained df col rw v = Inr ?df'"
    by (simp add: setitem_chained_def pos)
  have wf': "wf_frame ?df'"
    using wf by (auto simp: wf_frame_def list_all_length)
  have cells: "vals ?df' ! i ! c = (if index df ! i = rw \<and> c = j then v else vals df ! i ! c)"
    if "i < length (index df)" and "c < length (columns df)" for i c
  proof -
    have "length (vals df ! i) = length (columns df)" using wf that(1) by (rule wf_frame_row)
    with that len show ?thesis by (simp add: nth_list_update)
  qed
  from run wf' cells show ?thesis by (intro exI [of _ ?df']) simp
qed

lemma setitem_chained_ok:
  assumes "col \<in> set (columns df)"
  shows "\<exists>df'. setitem_chained df col rw v = Inr df'
           \<and> index df' = index df \<and> columns df' = columns df"
proof (cases "positions (columns df) col")
  case Nil
  with assms show ?thesis by (simp add: positions_Nil_iff)
next
  case (Cons j js)
  then show ?thesis by (cases js) (simp_all add: setitem_chained_def)
qed

subsection \<open>The two loops\<close>

lemma inner_loop_ok:
  "col \<in> set (columns df) \<Longrightarrow>
     \<exists>df'. for_each (\<lambda>m d. setitem_chained d col m (g m)) ms df = Inr df'
            \<and> index df' = index df \<and> columns df' = columns df"
proof (induction ms arbitrary: df)
  case Nil
  show ?case by simp
next
  case (Cons m ms)
  from setitem_chained_ok [OF Cons.prems, of m "g m"]
  obtain d1 where d1: "setitem_chained df col m (g m) = Inr d1"
    "index d1 = index df" "columns d1 = columns df" by blast
  from Cons.prems d1 have "col \<in> set (columns d1)" by simp
  from Cons.IH [OF this] d1 show ?case by simp
qed

lemma inner_loop_cells:
  "positions (columns df) col = [j] \<Longrightarrow> wf_frame df \<Longrightarrow>
     \<exists>df'. for_each (\<lambda>m d. setitem_chained d col m (g m)) ms df = Inr df'
            \<and> index df' = index df \<and> columns df' = columns df \<and> wf_frame df'
            \<and> (\<forall>i<length (index df). \<forall>c<length (columns df).
                  vals df' ! i ! c =
                    (if index df ! i \<in> set ms \<and> c = j then g (index df ! i) else vals df ! i ! c))"
proof (induction ms arbitrary: df)
  case Nil
  then show ?case by simp
next
  case (Cons m ms)
  from setitem_chained_unique [OF Cons.prems, of m "g m"]
  obtain d1 where d1: "setitem_chained df col m (g m) = Inr d1"
    "index d1 = index df" "columns d1 = columns df" "wf_frame d1"
    and c1: "\<And>i c. i < length (index df) \<Longrightarrow> c < length (columns df) \<Longrightarrow>
               vals d1 ! i ! c = (if index df ! i = m \<and> c = j then g m else vals df ! i ! c)"
    by blast
  from Cons.prems(1) d1 have p1: "positions (columns d1) col = [j]" by simp
  from Cons.IH [OF p1 d1(4)]
  obtain d2 where d2: "for_each (\<lambda>m d. setitem_chained d col m (g m)) ms d1 = Inr d2"
    "index d2 = index d1" "columns d2 = columns d1" "wf_frame d2"
    and c2: "\<And>i c. i < length (index d1) \<Longrightarrow> c < length (columns d1) \<Longrightarrow>
               vals d2 ! i ! c =
                 (if index d1 ! i \<in> set ms \<and> c = j then g (index d1 ! i) else vals d1 ! i ! c)"
    by blast
  have run: "for_each (\<lambda>m d. setitem_chained d col m (g m)) (m # ms) df = Inr d2"
    using d1 d2 by simp
  have cells: "vals d2 ! i ! c =
      (if index df ! i \<in> set (m # ms) \<and> c = j then g (index df ! i) else vals df ! i ! c)"
    if "i < length (index df)" and "c < length (columns df)" for i c
    using c1 [OF that] c2 [of i c] that d1 by auto
  from run d1 d2 cells show ?case by (intro exI [of _ d2]) simp
qed

lemma fill_reaction_ok:
  "label r \<in> set (columns df) \<Longrightarrow>
     \<exists>df'. fill_reaction r df = Inr df' \<and> index df' = index df \<and> columns df' = columns df"
  unfolding fill_reaction_def by (rule inner_loop_ok)

lemma fill_reaction_cells:
  "positions (columns df) (label r) = [j] \<Longrightarrow> wf_frame df \<Longrightarrow>
     \<exists>df'. fill_reaction r df = Inr df'
            \<and> index df' = index df \<and> columns df' = columns df \<and> wf_frame df'
            \<and> (\<forall>i<length (index df). \<forall>c<length (columns df).
                  vals df' ! i ! c =
                    (if index df ! i \<in> set (reaction_molecules r) \<and> c = j
                     then net_stoichiometry r (index df ! i) else vals df ! i ! c))"
  unfolding fill_reaction_def by (rule inner_loop_cells)

lemma outer_loop_ok:
  "set (map label rs) \<subseteq> set (columns df) \<Longrightarrow>
     \<exists>df'. for_each fill_reaction rs df = Inr df'
            \<and> index df' = index df \<and> columns df' = columns df"
proof (induction rs arbitrary: df)
  case Nil
  show ?case by simp
next
  case (Cons r rs)
  from Cons.prems have "label r \<in> set (columns df)" by simp
  from fill_reaction_ok [OF this]
  obtain d1 where d1: "fill_reaction r df = Inr d1"
    "index d1 = index df" "columns d1 = columns df" by blast
  from Cons.prems d1 have "set (map label rs) \<subseteq> set (columns d1)" by simp
  from Cons.IH [OF this] d1 show ?case by simp
qed

lemma outer_loop_cells:
  "distinct (columns df) \<Longrightarrow> wf_frame df \<Longrightarrow> set (map label rs) \<subseteq> set (columns df) \<Longrightarrow>
   distinct (map label rs) \<Longrightarrow>
     \<exists>df'. for_each fill_reaction rs df = Inr df'
            \<and> index df' = index df \<and> columns df' = columns df \<and> wf_frame df'
            \<and> (\<forall>i<length (index df). \<forall>c<length (columns df).
                  vals df' ! i ! c =
                    (case List.find (\<lambda>r. label r = columns df ! c) rs of
                       None \<Rightarrow> vals df ! i ! c
                     | Some r \<Rightarrow>
                         if index df ! i \<in> set (reaction_molecules r)
                         then net_stoichiometry r (index df ! i) else vals df ! i ! c))"
proof (induction rs arbitrary: df)
  case Nil
  then show ?case by simp
next
  case (Cons r rs)
  from Cons.prems(3) have "label r \<in> set (columns df)" by simp
  then obtain j where j: "j < length (columns df)" "columns df ! j = label r"
    by (auto simp: in_set_conv_nth)
  with Cons.prems(1) have pos: "positions (columns df) (label r) = [j]"
    using positions_distinct [of "columns df" j] by simp
  from fill_reaction_cells [OF pos Cons.prems(2)]
  obtain d1 where d1: "fill_reaction r df = Inr d1"
    "index d1 = index df" "columns d1 = columns df" "wf_frame d1"
    and c1: "\<And>i c. i < length (index df) \<Longrightarrow> c < length (columns df) \<Longrightarrow>
               vals d1 ! i ! c =
                 (if index df ! i \<in> set (reaction_molecules r) \<and> c = j
                  then net_stoichiometry r (index df ! i) else vals df ! i ! c)"
    by blast
  have p1: "distinct (columns d1)" "set (map label rs) \<subseteq> set (columns d1)" "distinct (map label rs)"
    using Cons.prems d1 by simp_all
  from Cons.IH [OF p1(1) d1(4) p1(2) p1(3)]
  obtain d2 where d2: "for_each fill_reaction rs d1 = Inr d2"
    "index d2 = index d1" "columns d2 = columns d1" "wf_frame d2"
    and c2: "\<And>i c. i < length (index d1) \<Longrightarrow> c < length (columns d1) \<Longrightarrow>
               vals d2 ! i ! c =
                 (case List.find (\<lambda>r. label r = columns d1 ! c) rs of
                    None \<Rightarrow> vals d1 ! i ! c
                  | Some r \<Rightarrow>
                      if index d1 ! i \<in> set (reaction_molecules r)
                      then net_stoichiometry r (index d1 ! i) else vals d1 ! i ! c)"
    by blast
  have run: "for_each fill_reaction (r # rs) df = Inr d2"
    using d1 d2 by simp
  have cells: "vals d2 ! i ! c =
      (case List.find (\<lambda>r. label r = columns df ! c) (r # rs) of
         None \<Rightarrow> vals df ! i ! c
       | Some r \<Rightarrow>
           if index df ! i \<in> set (reaction_molecules r)
           then net_stoichiometry r (index df ! i) else vals df ! i ! c)"
    if ic: "i < length (index df)" "c < length (columns df)" for i c
  proof (cases "label r = columns df ! c")
    case True
    with j Cons.prems(1) ic have cj: "c = j" by (simp add: nth_eq_iff_index_eq)
    from True Cons.prems(4) have "List.find (\<lambda>r. label r = columns df ! c) rs = None"
      by (force simp: find_None_iff)
    with c1 [OF ic] c2 [of i c] ic d1 True cj show ?thesis by simp
  next
    case False
    with j have "c \<noteq> j" by auto
    with c1 [OF ic] c2 [of i c] ic d1 False show ?thesis by (simp split: option.split)
  qed
  from run d1 d2 cells show ?case by (intro exI [of _ d2]) simp
qed

lemma find_snoc:
  "List.find P (xs @ [x]) = (case List.find P xs of None \<Rightarrow> (if P x then Some x else None) | Some y \<Rightarrow> Some y)"
  by (induction xs) simp_all

lemma stoichiometry_dict_fold:
  fixes f :: "MoleculeStoichiometry \<Rightarrow> (string \<rightharpoonup> real) \<Rightarrow> (string \<rightharpoonup> real)"
  defines "f \<equiv> \<lambda>r d. d(name (molecule r) \<mapsto> stoichiometry r)"
  shows "fold f side d0 m =
     (case List.find (\<lambda>e. name (molecule e) = m) (rev side) of
        None \<Rightarrow> d0 m
      | Some e \<Rightarrow> Some (stoichiometry e))"
proof (induction side arbitrary: d0)
  case Nil
  show ?case by simp
next
  case (Cons x xs)
  have "fold f (x # xs) d0 m = fold f xs (f x d0) m" by simp
  also have "\<dots> = (case List.find (\<lambda>e. name (molecule e) = m) (rev xs) of
        None \<Rightarrow> f x d0 m
      | Some e \<Rightarrow> Some (stoichiometry e))"
    by (rule Cons.IH)
  also have "\<dots> = (case List.find (\<lambda>e. name (molecule e) = m) (rev (x # xs)) of
        None \<Rightarrow> d0 m
      | Some e \<Rightarrow> Some (stoichiometry e))"
    by (simp add: f_def find_snoc split: option.split)
  finally show ?case .
qed

lemma dict_get_absent:
  assumes "m \<notin> set (map (\<lambda>e. name (molecule e)) side)"
  shows "dict_get (stoichiometry_dict side) m 0 = 0"
proof -
  from assms have "List.find (\<lambda>e. name (molecule e) = m) (rev side) = None"
    by (auto simp: find_None_iff)
  then show ?thesis
    by (simp add: dict_get_def stoichiometry_dict_def stoichiometry_dict_fold)
qed

lemma amount_absent:
  assumes "m \<notin> set (map (\<lambda>e. name (molecule e)) side)"
  shows "amount side m = 0"
proof -
  from assms have "filter (\<lambda>e. name (molecule e) = m) side = []"
    by (auto simp: filter_empty_conv)
  then show ?thesis by (simp add: amount_def)
qed

lemma amount_Cons:
  "amount (x # xs) m = (if name (molecule x) = m then stoichiometry x else 0) + amount xs m"
  by (simp add: amount_def)

text \<open>
  On a side that lists no molecule twice, the entry the dictionary keeps is the only
  one, and the value read from the dictionary is the amount.
\<close>

lemma last_entry_amount:
  assumes "distinct (map (\<lambda>e. name (molecule e)) side)"
  shows "(case List.find (\<lambda>e. name (molecule e) = m) (rev side) of
            None \<Rightarrow> 0
          | Some e \<Rightarrow> stoichiometry e) = amount side m"
  using assms
proof (induction side)
  case Nil
  show ?case by (simp add: amount_def)
next
  case (Cons x xs)
  from Cons.prems have d: "distinct (map (\<lambda>e. name (molecule e)) xs)"
    and nx: "name (molecule x) \<notin> set (map (\<lambda>e. name (molecule e)) xs)"
    by simp_all
  note ih = Cons.IH [OF d]
  show ?case
  proof (cases "name (molecule x) = m")
    case True
    with nx have absent: "m \<notin> set (map (\<lambda>e. name (molecule e)) xs)" by simp
    then have "List.find (\<lambda>e. name (molecule e) = m) (rev xs) = None"
      by (auto simp: find_None_iff)
    with True amount_absent [OF absent] show ?thesis
      by (simp add: find_snoc amount_Cons)
  next
    case False
    with ih show ?thesis
      by (auto simp: find_snoc amount_Cons split: option.splits)
  qed
qed

lemma dict_get_amount:
  assumes "listed_once side"
  shows "dict_get (stoichiometry_dict side) m 0 = amount side m"
proof -
  have "dict_get (stoichiometry_dict side) m 0 =
          (case List.find (\<lambda>e. name (molecule e) = m) (rev side) of
             None \<Rightarrow> 0
           | Some e \<Rightarrow> stoichiometry e)"
    by (simp add: dict_get_def stoichiometry_dict_def stoichiometry_dict_fold
             split: option.split)
  also have "\<dots> = amount side m"
    using assms by (simp only: listed_once_def last_entry_amount)
  finally show ?thesis .
qed

lemma net_stoichiometry_amount:
  assumes "listed_once (reactants r)" and "listed_once (products r)"
  shows "net_stoichiometry r m = amount (products r) m - amount (reactants r) m"
  using assms by (simp add: net_stoichiometry_def dict_get_amount)

lemma set_reaction_molecules:
  "set (reaction_molecules r) =
     set (map (\<lambda>e. name (molecule e)) (reactants r)) \<union> set (map (\<lambda>e. name (molecule e)) (products r))"
  by (simp add: reaction_molecules_def dict_keys_def)

lemma net_stoichiometry_absent:
  "m \<notin> set (reaction_molecules r) \<Longrightarrow> net_stoichiometry r m = 0"
  by (simp add: set_reaction_molecules net_stoichiometry_def dict_get_absent)

lemma find_distinct_label:
  assumes "distinct (map label rs)" and "j < length rs"
  shows "List.find (\<lambda>r. label r = map label rs ! j) rs = Some (rs ! j)"
  using assms
proof (induction rs arbitrary: j)
  case Nil
  then show ?case by simp
next
  case (Cons r rs)
  show ?case
  proof (cases j)
    case 0
    then show ?thesis by simp
  next
    case (Suc k)
    with Cons.prems have k: "k < length rs" by simp
    then have "label (rs ! k) \<in> set (map label rs)" by simp
    with Cons.prems(1) have "label r \<noteq> label (rs ! k)" by auto
    with Cons.IH [of k] Cons.prems(1) k Suc show ?thesis by simp
  qed
qed

lemma getStoichiometryMatrix_ok:
  "\<exists>df. getStoichiometryMatrix rs ms = Inr df \<and> index df = ms \<and> columns df = map label rs"
proof -
  have "set (map label rs) \<subseteq> set (columns (DataFrame_fill 0 ms (map label rs)))"
    by (simp add: DataFrame_fill_def)
  from outer_loop_ok [OF this] show ?thesis
    by (simp add: getStoichiometryMatrix_def DataFrame_fill_def Let_def)
qed

lemma getStoichiometryMatrix_cells:
  assumes "distinct (map label rs)"
  shows "\<exists>df. getStoichiometryMatrix rs ms = Inr df \<and> index df = ms \<and> columns df = map label rs
           \<and> wf_frame df
           \<and> (\<forall>i<length ms. \<forall>j<length rs.
                 vals df ! i ! j = net_stoichiometry (rs ! j) (ms ! i))"
proof -
  let ?d0 = "DataFrame_fill 0 ms (map label rs)"
  have i0: "index ?d0 = ms" and c0: "columns ?d0 = map label rs"
    by (simp_all add: DataFrame_fill_def)
  have z: "vals ?d0 ! i ! j = 0" if "i < length ms" "j < length rs" for i j
    using that by (simp add: DataFrame_fill_def)
  have p: "distinct (columns ?d0)" "wf_frame ?d0" "set (map label rs) \<subseteq> set (columns ?d0)"
    using assms by (simp_all add: c0 wf_frame_fill)
  from outer_loop_cells [OF p assms]
  obtain df where df: "for_each fill_reaction rs ?d0 = Inr df"
    "index df = index ?d0" "columns df = columns ?d0" "wf_frame df"
    and cells: "\<And>i c. i < length (index ?d0) \<Longrightarrow> c < length (columns ?d0) \<Longrightarrow>
        vals df ! i ! c =
          (case List.find (\<lambda>r. label r = columns ?d0 ! c) rs of
             None \<Rightarrow> vals ?d0 ! i ! c
           | Some r \<Rightarrow>
               if index ?d0 ! i \<in> set (reaction_molecules r)
               then net_stoichiometry r (index ?d0 ! i) else vals ?d0 ! i ! c)"
    by blast
  have run: "getStoichiometryMatrix rs ms = Inr df"
    using df(1) by (simp add: getStoichiometryMatrix_def Let_def)
  have goal: "vals df ! i ! j = net_stoichiometry (rs ! j) (ms ! i)"
    if ij: "i < length ms" "j < length rs" for i j
  proof -
    have f: "List.find (\<lambda>r. label r = map label rs ! j) rs = Some (rs ! j)"
      using assms ij(2) by (rule find_distinct_label)
    have "vals df ! i ! j =
        (if ms ! i \<in> set (reaction_molecules (rs ! j))
         then net_stoichiometry (rs ! j) (ms ! i) else 0)"
      using cells [of i j] ij f z [OF ij] by (simp add: i0 c0)
    also have "\<dots> = net_stoichiometry (rs ! j) (ms ! i)"
      by (simp add: net_stoichiometry_absent)
    finally show ?thesis .
  qed
  from run df goal show ?thesis by (intro exI [of _ df]) (simp add: i0 c0)
qed

subsection \<open>The cells of the matrix\<close>

text \<open>
  C5. The claim is that, for reactions with pairwise distinct labels and a molecule set
  that covers them, the cell of molecule \<open>m\<close> and reaction \<open>r\<close> is the coefficient of \<open>m\<close>
  among the products of \<open>r\<close> (else 0) minus its coefficient among the reactants of \<open>r\<close>
  (else 0). Lines 98 and 99 put each side into a dictionary keyed by molecule name,
  which holds one entry per molecule, so the claim fails for a reaction that lists a
  molecule more than once on a side. What holds: for reactions with pairwise distinct
  labels, none of which lists a molecule more than once among its reactants or more
  than once among its products, and a molecule list without repetition that covers
  them, \<open>getStoichiometryMatrix\<close> returns a matrix with the molecules as rows and the
  labels as columns in which the cell of \<open>m\<close> and \<open>r\<close> is the amount of \<open>m\<close> among the
  products of \<open>r\<close> minus the amount of \<open>m\<close> among the reactants of \<open>r\<close>. A molecule that \<open>r\<close>
  does not mention has cell 0, and so has a molecule that is reactant and product of
  \<open>r\<close> with equal coefficients.
\<close>

theorem stoichiometry_matrix_cells:
  assumes "distinct (map label rs)" and "distinct ms"
    and "\<forall>r\<in>set rs. \<forall>e\<in>set (reactants r @ products r). name (molecule e) \<in> set ms"
    and "\<forall>r\<in>set rs. listed_once (reactants r) \<and> listed_once (products r)"
  shows "\<exists>df. getStoichiometryMatrix rs ms = Inr df
           \<and> index df = ms \<and> columns df = map label rs
           \<and> (\<forall>i<length ms. \<forall>j<length rs.
                 vals df ! i ! j =
                   amount (products (rs ! j)) (ms ! i) - amount (reactants (rs ! j)) (ms ! i)
                 \<and> (ms ! i \<notin> set (map (\<lambda>e. name (molecule e)) (reactants (rs ! j) @ products (rs ! j)))
                      \<longrightarrow> vals df ! i ! j = 0)
                 \<and> (ms ! i \<in> set (map (\<lambda>e. name (molecule e)) (reactants (rs ! j)))
                    \<and> ms ! i \<in> set (map (\<lambda>e. name (molecule e)) (products (rs ! j)))
                    \<and> amount (products (rs ! j)) (ms ! i) = amount (reactants (rs ! j)) (ms ! i)
                      \<longrightarrow> vals df ! i ! j = 0))"
proof -
  from getStoichiometryMatrix_cells [OF assms(1), of ms]
  obtain df where df: "getStoichiometryMatrix rs ms = Inr df" "index df = ms"
    "columns df = map label rs"
    and net: "\<And>i j. i < length ms \<Longrightarrow> j < length rs \<Longrightarrow>
       vals df ! i ! j = net_stoichiometry (rs ! j) (ms ! i)"
    by blast
  have cells: "vals df ! i ! j =
         amount (products (rs ! j)) (ms ! i) - amount (reactants (rs ! j)) (ms ! i)"
    if "i < length ms" "j < length rs" for i j
  proof -
    from that(2) have "rs ! j \<in> set rs" by simp
    with assms(4) have "listed_once (reactants (rs ! j))" "listed_once (products (rs ! j))"
      by simp_all
    then show ?thesis
      using net [OF that] by (simp add: net_stoichiometry_amount)
  qed
  have absent: "vals df ! i ! j = 0"
    if "i < length ms" "j < length rs"
      "ms ! i \<notin> set (map (\<lambda>e. name (molecule e)) (reactants (rs ! j) @ products (rs ! j)))"
    for i j
    using cells [OF that(1,2)] that(3) by (simp add: amount_absent)
  have cancel: "vals df ! i ! j = 0"
    if "i < length ms" "j < length rs"
      "amount (products (rs ! j)) (ms ! i) = amount (reactants (rs ! j)) (ms ! i)"
    for i j
    using cells [OF that(1,2)] that(3) by simp
  from df cells absent cancel show ?thesis
    by (intro exI [of _ df]) simp
qed

theorem stoichiometry_matrix_cells_witness:
  "distinct (map label [ex_R1, ex_R2]) \<and> distinct [''A'', ''B'', ''C'']
   \<and> listed_once (reactants ex_R1) \<and> listed_once (products ex_R1)
   \<and> listed_once (reactants ex_R2) \<and> listed_once (products ex_R2)
   \<and> (\<exists>df. getStoichiometryMatrix [ex_R1, ex_R2] [''A'', ''B'', ''C''] = Inr df
          \<and> index df = [''A'', ''B'', ''C''] \<and> columns df = [''R1'', ''R2'']
          \<and> vals df ! 0 ! 0 = - 1 \<and> vals df ! 1 ! 0 = 1 \<and> vals df ! 2 ! 0 = 0
          \<and> vals df ! 0 ! 1 = 0 \<and> vals df ! 2 ! 1 = 1)"
proof -
  have h1: "distinct (map label [ex_R1, ex_R2])"
    by (simp add: ex_R1_def ex_R2_def)
  have h2: "distinct [''A'', ''B'', ''C'']" by simp
  have h3: "\<forall>r\<in>set [ex_R1, ex_R2]. \<forall>e\<in>set (reactants r @ products r).
              name (molecule e) \<in> set [''A'', ''B'', ''C'']"
    by (simp add: ex_R1_def ex_R2_def entry_def)
  have o1: "listed_once (reactants ex_R1)" "listed_once (products ex_R1)"
    by (simp_all add: listed_once_def ex_R1_def entry_def)
  have o2: "listed_once (reactants ex_R2)" "listed_once (products ex_R2)"
    by (simp_all add: listed_once_def ex_R2_def entry_def)
  have h4: "\<forall>r\<in>set [ex_R1, ex_R2]. listed_once (reactants r) \<and> listed_once (products r)"
    using o1 o2 by simp
  from stoichiometry_matrix_cells [OF h1 h2 h3 h4]
  obtain df where df: "getStoichiometryMatrix [ex_R1, ex_R2] [''A'', ''B'', ''C''] = Inr df"
    "index df = [''A'', ''B'', ''C'']" "columns df = map label [ex_R1, ex_R2]"
    and cells: "\<And>i j. i < 3 \<Longrightarrow> j < 2 \<Longrightarrow>
       vals df ! i ! j =
         amount (products ([ex_R1, ex_R2] ! j)) ([''A'', ''B'', ''C''] ! i)
           - amount (reactants ([ex_R1, ex_R2] ! j)) ([''A'', ''B'', ''C''] ! i)"
    by auto
  have c00: "vals df ! 0 ! 0 = - 1"
    using cells [of 0 0] by (simp add: ex_R1_def amount_def entry_def)
  have c10: "vals df ! 1 ! 0 = 1"
    using cells [of 1 0] by (simp add: ex_R1_def amount_def entry_def)
  have c20: "vals df ! 2 ! 0 = 0"
    using cells [of 2 0] by (simp add: ex_R1_def amount_def entry_def)
  have c01: "vals df ! 0 ! 1 = 0"
    using cells [of 0 1] by (simp add: ex_R2_def amount_def entry_def)
  have c21: "vals df ! 2 ! 1 = 1"
    using cells [of 2 1] by (simp add: ex_R2_def amount_def entry_def)
  have cols: "columns df = [''R1'', ''R2'']"
    using df(3) by (simp add: ex_R1_def ex_R2_def)
  from h1 h2 o1 o2 df(1,2) cols c00 c10 c20 c01 c21 show ?thesis by blast
qed

text \<open>
  C5, at a concrete input: A + A \<open>\<rightarrow>\<close> B, with the molecules A and B. The label is alone,
  the molecules are distinct and cover the reaction; the dictionary keeps one entry for
  A, the cell of A is \<open>- 1\<close>, and the amount produced minus the amount consumed is \<open>- 2\<close>.
\<close>

theorem repeated_molecule_counterexample:
  "distinct (map label [ex_A_twice]) \<and> distinct [''A'', ''B'']
   \<and> set (map (\<lambda>e. name (molecule e)) (reactants ex_A_twice @ products ex_A_twice))
        \<subseteq> set [''A'', ''B'']
   \<and> getStoichiometryMatrix [ex_A_twice] [''A'', ''B'']
        = Inr \<lparr>index = [''A'', ''B''], columns = [''R1''], vals = [[- 1], [1]]\<rparr>
   \<and> amount (products ex_A_twice) ''A'' - amount (reactants ex_A_twice) ''A'' = - 2"
  by code_simp

text \<open>
  C3. The claim is that two reactions sharing a label make the build fail with a
  DuplicateLabelError. The source has no such check: the labels go into
  \<^verbatim>\<open>pd.DataFrame(0.0, index=molecules, columns=reaction_labels)\<close> as they are. What
  holds instead: when the labels are not pairwise distinct the build still returns a
  matrix, with one column per reaction in input order, so that a shared label heads
  several columns.
\<close>

theorem duplicate_labels_not_rejected:
  assumes "\<not> distinct (map label rs)"
  shows "\<exists>df. getStoichiometryMatrix rs ms = Inr df \<and> index df = ms
           \<and> columns df = map label rs \<and> \<not> distinct (columns df)"
  using getStoichiometryMatrix_ok [of rs ms] assms by auto

theorem duplicate_labels_not_rejected_witness:
  "\<not> distinct (map label [ex_R1, ex_R1_again])
   \<and> (\<exists>df. getStoichiometryMatrix [ex_R1, ex_R1_again] [''A'', ''B'', ''C''] = Inr df
          \<and> index df = [''A'', ''B'', ''C''] \<and> columns df = [''R1'', ''R1''])"
proof -
  have h: "\<not> distinct (map label [ex_R1, ex_R1_again])"
    by (simp add: ex_R1_def ex_R1_again_def)
  from duplicate_labels_not_rejected [OF h, of "[''A'', ''B'', ''C'']"] h
  show ?thesis by (auto simp: ex_R1_def ex_R1_again_def)
qed

text \<open>
  C3, at a concrete input: two reactions labelled R1 give a matrix with two columns
  labelled R1, and no error.
\<close>

theorem duplicate_labels_counterexample:
  "map_sum id (\<lambda>df. (index df, columns df))
      (getStoichiometryMatrix [ex_R1, ex_R1_again] [''A'', ''B'', ''C''])
     = Inr ([''A'', ''B'', ''C''], [''R1'', ''R1''])"
  by (simp add: getStoichiometryMatrix_def DataFrame_fill_def fill_reaction_def
        reaction_molecules_def dict_keys_def setitem_chained_def positions_def
        ex_R1_def ex_R1_again_def entry_def Let_def)

subsection \<open>Construction of a Message\<close>

lemma set_set_union: "set (set_union s t) = set s \<union> set t"
  by (auto simp: set_union_def)

lemma distinct_set_union: "distinct s \<Longrightarrow> distinct (set_union s t)"
  by (auto simp: set_union_def)

lemma molecules_fold:
  fixes step :: "Reaction \<Rightarrow> string list \<Rightarrow> string list"
  defines "step \<equiv> \<lambda>reaction molecules.
             set_union (set_union molecules (map (\<lambda>r. name (molecule r)) (reactants reaction)))
                       (map (\<lambda>r. name (molecule r)) (products reaction))"
  shows "set (fold step rs acc) =
           set acc \<union> (\<Union>r\<in>set rs. set (map (\<lambda>e. name (molecule e)) (reactants r @ products r)))
         \<and> (distinct acc \<longrightarrow> distinct (fold step rs acc))"
proof (induction rs arbitrary: acc)
  case Nil
  show ?case by simp
next
  case (Cons r rs)
  have s: "set (step r acc) = set acc \<union> set (map (\<lambda>e. name (molecule e)) (reactants r @ products r))"
    by (auto simp: step_def set_set_union)
  have d: "distinct acc \<Longrightarrow> distinct (step r acc)"
    by (simp add: step_def distinct_set_union)
  have "fold step (r # rs) acc = fold step rs (step r acc)" by simp
  with Cons.IH [of "step r acc"] s d show ?case by auto
qed

lemma getNonBoundaryMolecules_set:
  "set (getNonBoundaryMolecules smpl rs) =
     (\<Union>r\<in>set rs. set (map (\<lambda>e. name (molecule e)) (reactants r @ products r)))"
  using molecules_fold [where rs = rs and acc = "[]"] by (simp add: getNonBoundaryMolecules_def)

lemma getNonBoundaryMolecules_distinct: "distinct (getNonBoundaryMolecules smpl rs)"
  using molecules_fold [where rs = rs and acc = "[]"] by (simp add: getNonBoundaryMolecules_def)

lemma getNonBoundaryReactions_idem:
  "getNonBoundaryReactions cn (smpl\<lparr>SimpleSBML.reactions := getNonBoundaryReactions cn smpl\<rparr>)
     = getNonBoundaryReactions cn smpl"
  by (simp add: getNonBoundaryReactions_def)

lemma getNonBoundaryMolecules_simple:
  "getNonBoundaryMolecules smpl rs = getNonBoundaryMolecules smpl' rs"
  by (simp add: getNonBoundaryMolecules_def)

text \<open>
  C9. The matrix built by \<open>Message.__init__\<close> is derived from the non-boundary reactions
  only: its columns are the labels of the non-boundary reactions, in order (so that, the
  labels of a model being pairwise distinct, no boundary reaction's label is a column);
  its rows are, without repetition, exactly the molecule names that occur as reactant or
  product of some non-boundary reaction; and the matrix is the one obtained from the
  model with its boundary reactions removed.
\<close>

theorem matrix_from_non_boundary_reactions:
  "\<exists>M. Message_init cn smpl = Inr M
     \<and> columns (stoichiometry_matrix M)
         = map label (filter (\<lambda>r. category r \<noteq> REACTION_BOUNDARY cn) (SimpleSBML.reactions smpl))
     \<and> (distinct (map label (SimpleSBML.reactions smpl)) \<longrightarrow>
          (\<forall>r\<in>set (SimpleSBML.reactions smpl).
              category r = REACTION_BOUNDARY cn \<longrightarrow> label r \<notin> set (columns (stoichiometry_matrix M))))
     \<and> distinct (index (stoichiometry_matrix M))
     \<and> set (index (stoichiometry_matrix M))
         = {m. \<exists>r\<in>set (SimpleSBML.reactions smpl). category r \<noteq> REACTION_BOUNDARY cn
                  \<and> (\<exists>e\<in>set (reactants r @ products r). name (molecule e) = m)}
     \<and> map_sum id stoichiometry_matrix
          (Message_init cn (smpl\<lparr>SimpleSBML.reactions := getNonBoundaryReactions cn smpl\<rparr>))
         = Inr (stoichiometry_matrix M)"
proof -
  let ?rs = "getNonBoundaryReactions cn smpl"
  let ?ms = "getNonBoundaryMolecules smpl ?rs"
  let ?smpl' = "smpl\<lparr>SimpleSBML.reactions := ?rs\<rparr>"
  from getStoichiometryMatrix_ok [of ?rs ?ms]
  obtain df where df: "getStoichiometryMatrix ?rs ?ms = Inr df" "index df = ?ms"
    "columns df = map label ?rs" by blast
  let ?M = "\<lparr>simple = smpl, reactions = ?rs, molecules = ?ms,
             stoichiometry_matrix = df, reduced_reactions = []\<rparr>"
  have run: "Message_init cn smpl = Inr ?M"
    using df(1) by (simp add: Message_init_def Let_def)
  have cols: "columns df
         = map label (filter (\<lambda>r. category r \<noteq> REACTION_BOUNDARY cn) (SimpleSBML.reactions smpl))"
    using df(3) by (simp add: getNonBoundaryReactions_def)
  have nob: "label r \<notin> set (columns df)"
    if dl: "distinct (map label (SimpleSBML.reactions smpl))"
      and r: "r \<in> set (SimpleSBML.reactions smpl)" "category r = REACTION_BOUNDARY cn" for r
  proof
    assume "label r \<in> set (columns df)"
    with cols obtain r' where r': "r' \<in> set (SimpleSBML.reactions smpl)"
      "category r' \<noteq> REACTION_BOUNDARY cn" "label r' = label r" by auto
    from dl r(1) r'(1,3) have "r' = r"
      by (metis distinct_map inj_on_def)
    with r(2) r'(2) show False by simp
  qed
  have dist: "distinct (index df)"
    by (simp add: df(2) getNonBoundaryMolecules_distinct)
  have rows: "set (index df)
         = {m. \<exists>r\<in>set (SimpleSBML.reactions smpl). category r \<noteq> REACTION_BOUNDARY cn
                  \<and> (\<exists>e\<in>set (reactants r @ products r). name (molecule e) = m)}"
    by (auto simp: df(2) getNonBoundaryMolecules_set getNonBoundaryReactions_def)
  have ms': "getNonBoundaryMolecules ?smpl' ?rs = ?ms"
    by (rule getNonBoundaryMolecules_simple)
  have again: "map_sum id stoichiometry_matrix (Message_init cn ?smpl') = Inr df"
    using df(1) by (simp add: Message_init_def Let_def getNonBoundaryReactions_idem ms')
  from run cols nob dist rows again show ?thesis
    by (intro exI [of _ ?M]) simp
qed

theorem matrix_from_non_boundary_reactions_witness:
  "distinct (map label (SimpleSBML.reactions ex_simple))
   \<and> ex_R3 \<in> set (SimpleSBML.reactions ex_simple)
   \<and> category ex_R3 = REACTION_BOUNDARY cn_example
   \<and> (\<exists>M. Message_init cn_example ex_simple = Inr M
        \<and> columns (stoichiometry_matrix M) = [''R1'', ''R2'']
        \<and> label ex_R3 \<notin> set (columns (stoichiometry_matrix M))
        \<and> set (index (stoichiometry_matrix M)) = {''A'', ''B'', ''C''}
        \<and> ''D'' \<notin> set (index (stoichiometry_matrix M)))"
proof -
  have h1: "distinct (map label (SimpleSBML.reactions ex_simple))"
    by (simp add: ex_simple_def ex_R1_def ex_R2_def ex_R3_def)
  have h2: "ex_R3 \<in> set (SimpleSBML.reactions ex_simple)"
    by (simp add: ex_simple_def)
  have h3: "category ex_R3 = REACTION_BOUNDARY cn_example"
    by (simp add: ex_R3_def cn_example_def)
  from matrix_from_non_boundary_reactions [of cn_example ex_simple]
  obtain M where M: "Message_init cn_example ex_simple = Inr M"
    and cols: "columns (stoichiometry_matrix M)
         = map label (filter (\<lambda>r. category r \<noteq> REACTION_BOUNDARY cn_example)
                        (SimpleSBML.reactions ex_simple))"
    and nob: "distinct (map label (SimpleSBML.reactions ex_simple)) \<longrightarrow>
          (\<forall>r\<in>set (SimpleSBML.reactions ex_simple).
              category r = REACTION_BOUNDARY cn_example
                \<longrightarrow> label r \<notin> set (columns (stoichiometry_matrix M)))"
    and rows: "set (index (stoichiometry_matrix M))
         = {m. \<exists>r\<in>set (SimpleSBML.reactions ex_simple). category r \<noteq> REACTION_BOUNDARY cn_example
                  \<and> (\<exists>e\<in>set (reactants r @ products r). name (molecule e) = m)}"
    by blast
  have c: "columns (stoichiometry_matrix M) = [''R1'', ''R2'']"
    using cols by (simp add: ex_simple_def ex_R1_def ex_R2_def ex_R3_def cn_example_def)
  have n: "label ex_R3 \<notin> set (columns (stoichiometry_matrix M))"
    using nob h1 h2 h3 by blast
  have r: "set (index (stoichiometry_matrix M)) = {''A'', ''B'', ''C''}"
    unfolding rows
    by (auto simp: ex_simple_def ex_R1_def ex_R2_def ex_R3_def cn_example_def entry_def)
  have d: "''D'' \<notin> set (index (stoichiometry_matrix M))"
    unfolding r by simp
  from h1 h2 h3 M c n r d show ?thesis by blast
qed

section \<open>Properties of the reducer\<close>

lemma list_index_unit_row: "i < n \<Longrightarrow> list_index (unit_row n i) 1 = Inr i"
proof -
  assume i: "i < n"
  have "filter (\<lambda>c. unit_row n i ! c = 1) [0..<n] = filter (\<lambda>c. c = i) [0..<n]"
    by (intro filter_cong) (auto simp: unit_row_def)
  with i have "positions (unit_row n i) 1 = [i]"
    by (simp add: positions_def unit_row_def filter_eq_upt)
  then show ?thesis by (simp add: list_index_def)
qed

lemma pivot_index_of_permutation_matrix:
  assumes "\<forall>i\<in>set piv. i < n"
  shows "comprehension (\<lambda>k. list_index k 1) (elems (permutation_matrix n piv)) = Inr piv"
proof -
  have "comprehension (\<lambda>k. list_index k 1) (map (unit_row n) piv) = Inr piv"
    using assms by (induction piv) (simp_all add: list_index_unit_row)
  then show ?thesis by (simp add: permutation_matrix_def)
qed

lemma comprehension_getitem:
  assumes "\<forall>i\<in>set js. i < length xs"
  shows "comprehension (getitem xs) js = Inr (map ((!) xs) js)"
  using assms by (induction js) (simp_all add: getitem_def)

lemma mset_permuted_labels:
  assumes "mset piv = mset [0..<length xs]"
  shows "mset (map ((!) xs) piv) = mset xs"
proof -
  have "mset (map ((!) xs) piv) = image_mset ((!) xs) (mset piv)" by simp
  also have "\<dots> = image_mset ((!) xs) (mset [0..<length xs])" by (simp only: assms)
  also have "\<dots> = mset (map ((!) xs) [0..<length xs])" by simp
  also have "\<dots> = mset xs" by (simp only: map_nth)
  finally show ?thesis .
qed

lemma wf_frame_T_of_array:
  assumes "wf_array U" and "nrows U = length idx" and "ncols U = length cols"
  shows "wf_frame (T \<lparr>index = idx, columns = cols, vals = elems U\<rparr>)"
  using assms by (simp add: wf_frame_def wf_array_def T_def transpose_rows_def list_all_iff)

lemma decomposeMatrix_run:
  assumes lu: "lu la (asarray (T mat_df)) = Inr (P, L, U)"
    and inv: "inv la P = Inr (permutation_matrix (length (columns mat_df)) piv)"
    and piv: "mset piv = mset [0..<length (columns mat_df)]"
  shows "decomposeMatrix la mat_df =
           (if nrows U = length (columns mat_df) \<and> ncols U = length (index mat_df)
            then Inr (L, T \<lparr>index = map ((!) (columns mat_df)) piv, columns = index mat_df,
                            vals = elems U\<rparr>)
            else Inl ValueError)"
proof -
  from piv have "set piv = set [0..<length (columns mat_df)]" by (rule mset_eq_setD)
  then have bound: "\<forall>i\<in>set piv. i < length (columns mat_df)" by simp
  have len: "length piv = length (columns mat_df)"
    using piv by (metis length_upt mset_eq_length minus_nat.diff_0)
  have pi: "comprehension (\<lambda>k. list_index k 1)
              (elems (permutation_matrix (length (columns mat_df)) piv)) = Inr piv"
    using bound by (rule pivot_index_of_permutation_matrix)
  have ni: "comprehension (getitem (index (T mat_df))) piv = Inr (map ((!) (columns mat_df)) piv)"
    using comprehension_getitem [of piv "columns mat_df"] bound by (simp add: T_def)
  show ?thesis
    by (simp add: decomposeMatrix_def Let_def lu inv pi ni DataFrame_of_array_def len)
       (simp add: T_def)
qed

text \<open>
  C2. The claim is that the reduced matrix has the shape of the input and the input's
  column labels in the same order. The shape is kept, but the labels are not: line 121
  relabels the rows of the upper factor with the reaction labels in pivot order,
  \<^verbatim>\<open>new_idx_mat_t = [idx_mat_t[idx] for idx in pivot_index]\<close>, and after the final
  transposition these are the column labels. What holds: whenever \<open>decomposeMatrix\<close>
  succeeds, with a decomposition whose inverse permutation factor has its 1 of row \<open>i\<close>
  in column \<open>piv ! i\<close> (\<open>piv\<close> a permutation of the row numbers), the reduced matrix has as
  many rows and columns as the input, the row labels of the input in the same order,
  and the column labels of the input rearranged by \<open>piv\<close>.
\<close>

theorem reduced_matrix_shape_and_labels:
  assumes "lu la (asarray (T mat_df)) = Inr (P, L, U)" and "wf_array U"
    and "inv la P = Inr (permutation_matrix (length (columns mat_df)) piv)"
    and "mset piv = mset [0..<length (columns mat_df)]"
    and "decomposeMatrix la mat_df = Inr (L', red)"
  shows "length (index red) = length (index mat_df)
       \<and> length (columns red) = length (columns mat_df)
       \<and> wf_frame red
       \<and> index red = index mat_df
       \<and> columns red = map ((!) (columns mat_df)) piv
       \<and> mset (columns red) = mset (columns mat_df)"
proof -
  note run = decomposeMatrix_run [OF assms(1,3,4)]
  from run assms(5) have shape: "nrows U = length (columns mat_df)" "ncols U = length (index mat_df)"
    by (auto split: if_splits)
  let ?rt = "\<lparr>index = map ((!) (columns mat_df)) piv, columns = index mat_df, vals = elems U\<rparr>"
  from run assms(5) shape have red: "red = T ?rt" by simp
  have len: "length piv = length (columns mat_df)"
    using assms(4) by (metis length_upt mset_eq_length minus_nat.diff_0)
  have wf: "wf_frame red"
    unfolding red using assms(2) by (rule wf_frame_T_of_array) (simp_all add: shape len)
  have idx: "index red = index mat_df" and cols: "columns red = map ((!) (columns mat_df)) piv"
    by (simp_all add: red T_def)
  from idx cols wf len mset_permuted_labels [OF assms(4)] show ?thesis by simp
qed

lemma ex_lu:
  "lu scipy_linalg (asarray (T ex_matrix)) =
     Inr (\<lparr>nrows = 2, ncols = 2, elems = [[0, 1], [1, 0]]\<rparr>,
          \<lparr>nrows = 2, ncols = 2, elems = [[1, 0], [1 / 2, 1]]\<rparr>,
          \<lparr>nrows = 2, ncols = 3, elems = [[- 2, 0, 1], [0, 1, - (1 / 2)]]\<rparr>)"
  by code_simp

lemma ex_inv:
  "inv scipy_linalg \<lparr>nrows = 2, ncols = 2, elems = [[0, 1], [1, 0]]\<rparr>
     = Inr (permutation_matrix (length (columns ex_matrix)) [1, 0])"
  by code_simp

text \<open>
  C2, at a concrete input: for A \<open>\<rightarrow>\<close> B (R1) and 2 A \<open>\<rightarrow>\<close> C (R2) the pivot of the first
  column is the row of R2, and the reduced matrix has the columns R2, R1.
\<close>

theorem reduced_matrix_columns_counterexample:
  "columns ex_matrix = [''R1'', ''R2'']
   \<and> decomposeMatrix scipy_linalg ex_matrix =
       Inr (\<lparr>nrows = 2, ncols = 2, elems = [[1, 0], [1 / 2, 1]]\<rparr>,
            \<lparr>index = [''A'', ''B'', ''C''], columns = [''R2'', ''R1''],
             vals = [[- 2, 0], [0, 1], [1, - (1 / 2)]]\<rparr>)"
  by code_simp

theorem reduced_matrix_shape_and_labels_witness:
  "lu scipy_linalg (asarray (T ex_matrix)) =
     Inr (\<lparr>nrows = 2, ncols = 2, elems = [[0, 1], [1, 0]]\<rparr>,
          \<lparr>nrows = 2, ncols = 2, elems = [[1, 0], [1 / 2, 1]]\<rparr>,
          \<lparr>nrows = 2, ncols = 3, elems = [[- 2, 0, 1], [0, 1, - (1 / 2)]]\<rparr>)
   \<and> mset [1, 0] = mset [0..<length (columns ex_matrix)]
   \<and> (\<exists>L' red. decomposeMatrix scipy_linalg ex_matrix = Inr (L', red)
         \<and> length (index red) = 3 \<and> length (columns red) = 2
         \<and> index red = [''A'', ''B'', ''C''] \<and> columns red = [''R2'', ''R1''])"
proof -
  let ?U = "\<lparr>nrows = 2, ncols = 3, elems = [[- 2, 0, 1], [0, 1, - (1 / 2)]]\<rparr>"
  have wfU: "wf_array ?U" by (simp add: wf_array_def)
  have piv: "mset [1, 0] = mset [0..<length (columns ex_matrix)]"
    by (simp add: ex_matrix_def upt_rec)
  obtain L' red where run: "decomposeMatrix scipy_linalg ex_matrix = Inr (L', red)"
    using decomposeMatrix_run [OF ex_lu ex_inv piv] by (simp add: ex_matrix_def)
  from reduced_matrix_shape_and_labels [OF ex_lu wfU ex_inv piv run]
  have "length (index red) = 3 \<and> length (columns red) = 2
         \<and> index red = [''A'', ''B'', ''C''] \<and> columns red = [''R2'', ''R1'']"
    by (simp add: ex_matrix_def)
  with ex_lu piv run show ?thesis by blast
qed

lemma wf_frame_no_columns:
  assumes "wf_frame df" and "columns df = []"
  shows "df = \<lparr>index = index df, columns = [], vals = replicate (length (index df)) []\<rparr>"
proof -
  from assms have "\<forall>cells\<in>set (vals df). cells = []" and "length (vals df) = length (index df)"
    by (simp_all add: wf_frame_def list_all_iff)
  then have "vals df = replicate (length (index df)) []"
    by (metis replicate_length_same)
  with assms(2) show ?thesis by simp
qed

lemma decomposeMatrix_success:
  assumes "decomposeMatrix la mat_df = Inr (L', red)"
  shows "\<exists>P L U. lu la (asarray (T mat_df)) = Inr (P, L, U) \<and> length (columns red) = nrows U"
  using assms
  by (auto simp: decomposeMatrix_def Let_def DataFrame_of_array_def T_def
           split: sum.splits if_splits)

text \<open>
  C4. The claim is that a matrix with no reaction or with no molecule gives an empty
  reduced matrix of the same shape and no error. The source has no code for empty
  matrices; what the general path does is this. With no reaction (no column), and a
  decomposition routine that returns its (empty) factors for the empty matrix,
  \<open>decomposeMatrix\<close> returns the input matrix itself. With no molecule (no row) but at
  least one reaction, the upper factor has no row, and \<open>decomposeMatrix\<close> never returns a
  matrix with the input's number of columns.
\<close>

theorem degenerate_matrices:
  "(columns mat_df = [] \<and> wf_frame mat_df
      \<and> lu la (asarray (T mat_df)) = Inr (P, L, U) \<and> wf_array U
      \<and> nrows U = 0 \<and> ncols U = length (index mat_df)
      \<and> inv la P = Inr (permutation_matrix 0 [])
      \<longrightarrow> decomposeMatrix la mat_df = Inr (L, mat_df))
   \<and> (index mat_df = [] \<and> columns mat_df \<noteq> []
      \<and> (\<forall>P L U. lu la (asarray (T mat_df)) = Inr (P, L, U) \<longrightarrow> nrows U = 0)
      \<longrightarrow> \<not> (\<exists>L' red. decomposeMatrix la mat_df = Inr (L', red)
                 \<and> length (columns red) = length (columns mat_df)))"
proof (intro conjI impI)
  assume a: "columns mat_df = [] \<and> wf_frame mat_df
      \<and> lu la (asarray (T mat_df)) = Inr (P, L, U) \<and> wf_array U
      \<and> nrows U = 0 \<and> ncols U = length (index mat_df)
      \<and> inv la P = Inr (permutation_matrix 0 [])"
  from a have cols: "columns mat_df = []" by (rule conjunct1)
  from a have wf: "wf_frame mat_df" by (elim conjE)
  from a have lu: "lu la (asarray (T mat_df)) = Inr (P, L, U)" by (elim conjE)
  from a have wfU: "wf_array U" by (elim conjE)
  from a have nr: "nrows U = 0" by (elim conjE)
  from a have nc: "ncols U = length (index mat_df)" by (elim conjE)
  from a have "inv la P = Inr (permutation_matrix 0 [])" by (elim conjE)
  with cols have inv: "inv la P = Inr (permutation_matrix (length (columns mat_df)) [])"
    by simp
  have piv: "mset [] = mset [0..<length (columns mat_df)]"
    by (simp add: cols)
  from wfU nr have "length (elems U) = 0" by (simp add: wf_array_def)
  then have eU: "elems U = []" by simp
  have "decomposeMatrix la mat_df =
          Inr (L, T \<lparr>index = [], columns = index mat_df, vals = []\<rparr>)"
    by (simp add: decomposeMatrix_run [OF lu inv piv] nr nc cols eU)
  also have "T \<lparr>index = [], columns = index mat_df, vals = []\<rparr>
               = \<lparr>index = index mat_df, columns = [], vals = replicate (length (index mat_df)) []\<rparr>"
    by (simp add: T_def transpose_rows_def map_replicate_const)
  also have "\<dots> = mat_df"
    by (rule wf_frame_no_columns [OF wf cols, symmetric])
  finally show "decomposeMatrix la mat_df = Inr (L, mat_df)" .
next
  assume b: "index mat_df = [] \<and> columns mat_df \<noteq> []
      \<and> (\<forall>P L U. lu la (asarray (T mat_df)) = Inr (P, L, U) \<longrightarrow> nrows U = 0)"
  from b have ne: "columns mat_df \<noteq> []" by (elim conjE)
  from b have lib: "\<forall>P L U. lu la (asarray (T mat_df)) = Inr (P, L, U) \<longrightarrow> nrows U = 0"
    by (elim conjE)
  show "\<not> (\<exists>L' red. decomposeMatrix la mat_df = Inr (L', red)
                 \<and> length (columns red) = length (columns mat_df))"
  proof
    assume "\<exists>L' red. decomposeMatrix la mat_df = Inr (L', red)
                 \<and> length (columns red) = length (columns mat_df)"
    then obtain L' red where r: "decomposeMatrix la mat_df = Inr (L', red)"
      "length (columns red) = length (columns mat_df)" by blast
    from decomposeMatrix_success [OF r(1)] lib have "length (columns red) = 0" by auto
    with r(2) ne show False by simp
  qed
qed

theorem degenerate_matrices_witness:
  "columns ex_no_reactions = [] \<and> wf_frame ex_no_reactions
   \<and> decomposeMatrix scipy_linalg ex_no_reactions
       = Inr (\<lparr>nrows = 0, ncols = 0, elems = []\<rparr>, ex_no_reactions)
   \<and> index ex_no_molecules = [] \<and> columns ex_no_molecules \<noteq> []
   \<and> \<not> (\<exists>L' red. decomposeMatrix scipy_linalg ex_no_molecules = Inr (L', red)
            \<and> length (columns red) = length (columns ex_no_molecules))"
proof -
  let ?Z = "\<lparr>nrows = 0, ncols = 0, elems = []\<rparr>"
  let ?U = "\<lparr>nrows = 0, ncols = 2, elems = []\<rparr>"
  have a1: "columns ex_no_reactions = []" by (simp add: ex_no_reactions_def)
  have a2: "wf_frame ex_no_reactions" by (simp add: ex_no_reactions_def wf_frame_def)
  have a3: "lu scipy_linalg (asarray (T ex_no_reactions)) = Inr (?Z, ?Z, ?U)" by code_simp
  have a4: "wf_array ?U" by (simp add: wf_array_def)
  have a5: "nrows ?U = 0" by simp
  have a6: "ncols ?U = length (index ex_no_reactions)" by (simp add: ex_no_reactions_def)
  have a7: "inv scipy_linalg ?Z = Inr (permutation_matrix 0 [])" by code_simp
  have b1: "index ex_no_molecules = []" by (simp add: ex_no_molecules_def)
  have b2: "columns ex_no_molecules \<noteq> []" by (simp add: ex_no_molecules_def)
  have b3: "lu scipy_linalg (asarray (T ex_no_molecules))
              = Inr (\<lparr>nrows = 1, ncols = 1, elems = [[1]]\<rparr>,
                     \<lparr>nrows = 1, ncols = 0, elems = [[]]\<rparr>, ?Z)"
    by code_simp
  have b4: "\<forall>P L U. lu scipy_linalg (asarray (T ex_no_molecules)) = Inr (P, L, U) \<longrightarrow> nrows U = 0"
    by (simp add: b3)
  have r1: "decomposeMatrix scipy_linalg ex_no_reactions = Inr (?Z, ex_no_reactions)"
    by (rule degenerate_matrices [of ex_no_reactions scipy_linalg ?Z ?Z ?U, THEN conjunct1, THEN mp])
       (intro conjI a1 a2 a3 a4 a5 a6 a7)
  have r2: "\<not> (\<exists>L' red. decomposeMatrix scipy_linalg ex_no_molecules = Inr (L', red)
            \<and> length (columns red) = length (columns ex_no_molecules))"
    by (rule degenerate_matrices [of ex_no_molecules scipy_linalg, THEN conjunct2, THEN mp])
       (intro conjI b1 b2 b4)
  show ?thesis by (intro conjI a1 a2 r1 b1 b2 r2)
qed

text \<open>
  C4, at a concrete input: one reaction and no molecule. The upper factor has no row,
  the index built from the permutation factor has one label, and building the frame
  raises ValueError.
\<close>

theorem no_molecules_counterexample:
  "index ex_no_molecules = [] \<and> columns ex_no_molecules = [''R1'']
   \<and> decomposeMatrix scipy_linalg ex_no_molecules = Inl ValueError"
  by code_simp

section \<open>Properties of the converter\<close>

lemma global_name_getReactionSummaryCategory:
  "global_name ''getReactionSummaryCategory'' v = Inl (NameError ''getReactionSummaryCategory'')"
  by (simp add: global_name_def module_globals_def)

lemma convert_column_raises: "\<exists>e. convert_column cn smpl mat_df reaction_name = Inl e"
  by (simp add: convert_column_def global_name_getReactionSummaryCategory split: sum.split)

lemma convertMatrixToReactions_raises:
  "columns mat_df \<noteq> [] \<Longrightarrow> \<exists>e. convertMatrixToReactions cn smpl mat_df = Inl e"
proof -
  assume "columns mat_df \<noteq> []"
  then obtain c cs where cs: "columns mat_df = c # cs" by (cases "columns mat_df") auto
  from convert_column_raises [of cn smpl mat_df c]
  obtain e where "convert_column cn smpl mat_df c = Inl e" by blast
  with cs show ?thesis by (simp add: convertMatrixToReactions_def)
qed

lemma convertMatrixToReactions_no_columns:
  "columns mat_df = [] \<Longrightarrow> convertMatrixToReactions cn smpl mat_df = Inr []"
  by (simp add: convertMatrixToReactions_def)

lemma comprehension_if_total:
  "(\<And>x. x \<in> set xs \<Longrightarrow> c x = Inr (p x)) \<Longrightarrow> (\<And>x. x \<in> set xs \<Longrightarrow> f x = Inr (g x)) \<Longrightarrow>
     comprehension_if c f xs = Inr (map g (filter p xs))"
  by (induction xs) simp_all

lemma map_filter_cong_set:
  "(\<And>x. x \<in> set xs \<Longrightarrow> P x = Q x) \<Longrightarrow> (\<And>x. x \<in> set xs \<Longrightarrow> F x = G x) \<Longrightarrow>
     map F (filter P xs) = map G (filter Q xs)"
  by (induction xs) auto

lemma cell_of_Series:
  assumes "distinct idx" and "i < length idx"
  shows "cell_of (Series idx vs) (idx ! i) = Inr (vs ! i)"
  using positions_distinct [OF assms] by simp

lemma column_lists_by_sign:
  assumes d: "distinct idx" and g: "\<And>m. getMolecule smpl m = Inr (mk m)"
  shows "column_reactants smpl (Series idx vs) =
           Inr (map (\<lambda>i. \<lparr>molecule = mk (idx ! i), stoichiometry = \<bar>vs ! i\<bar>\<rparr>)
                    (filter (\<lambda>i. vs ! i < 0) [0..<length idx]))"
    and "column_products smpl (Series idx vs) =
           Inr (map (\<lambda>i. \<lparr>molecule = mk (idx ! i), stoichiometry = vs ! i\<rparr>)
                    (filter (\<lambda>i. 0 < vs ! i) [0..<length idx]))"
proof -
  let ?pos = "\<lambda>m. hd (positions idx m)"
  have pos: "?pos (idx ! i) = i" if "i < length idx" for i
    using positions_distinct [OF d that] by simp
  have cell: "cell_of (Series idx vs) m = Inr (vs ! ?pos m)" if "m \<in> set idx" for m
  proof -
    from that obtain i where i: "i < length idx" "idx ! i = m" by (auto simp: in_set_conv_nth)
    with cell_of_Series [OF d i(1), of vs] pos [OF i(1)] show ?thesis by simp
  qed
  have idx: "idx = map ((!) idx) [0..<length idx]" by (simp add: map_nth)
  have r: "column_reactants smpl (Series idx vs) =
      Inr (map (\<lambda>m. \<lparr>molecule = mk m, stoichiometry = \<bar>vs ! ?pos m\<bar>\<rparr>)
               (filter (\<lambda>m. vs ! ?pos m < 0) idx))"
    unfolding column_reactants_def selection_index.simps
    by (rule comprehension_if_total) (simp_all add: cell g del: cell_of.simps)
  have p: "column_products smpl (Series idx vs) =
      Inr (map (\<lambda>m. \<lparr>molecule = mk m, stoichiometry = vs ! ?pos m\<rparr>)
               (filter (\<lambda>m. 0 < vs ! ?pos m) idx))"
    unfolding column_products_def selection_index.simps
    by (rule comprehension_if_total) (simp_all add: cell g del: cell_of.simps)
  have fr: "map (\<lambda>m. \<lparr>molecule = mk m, stoichiometry = \<bar>vs ! ?pos m\<bar>\<rparr>)
               (filter (\<lambda>m. vs ! ?pos m < 0) (map ((!) idx) [0..<length idx]))
        = map (\<lambda>i. \<lparr>molecule = mk (idx ! i), stoichiometry = \<bar>vs ! i\<bar>\<rparr>)
              (filter (\<lambda>i. vs ! i < 0) [0..<length idx])"
    unfolding filter_map map_map comp_def
    by (rule map_filter_cong_set) (simp_all add: pos)
  have fp: "map (\<lambda>m. \<lparr>molecule = mk m, stoichiometry = vs ! ?pos m\<rparr>)
               (filter (\<lambda>m. 0 < vs ! ?pos m) (map ((!) idx) [0..<length idx]))
        = map (\<lambda>i. \<lparr>molecule = mk (idx ! i), stoichiometry = vs ! i\<rparr>)
              (filter (\<lambda>i. 0 < vs ! i) [0..<length idx])"
    unfolding filter_map map_map comp_def
    by (rule map_filter_cong_set) (simp_all add: pos)
  show "column_reactants smpl (Series idx vs) =
           Inr (map (\<lambda>i. \<lparr>molecule = mk (idx ! i), stoichiometry = \<bar>vs ! i\<bar>\<rparr>)
                    (filter (\<lambda>i. vs ! i < 0) [0..<length idx]))"
    using r fr idx by metis
  show "column_products smpl (Series idx vs) =
           Inr (map (\<lambda>i. \<lparr>molecule = mk (idx ! i), stoichiometry = vs ! i\<rparr>)
                    (filter (\<lambda>i. 0 < vs ! i) [0..<length idx]))"
    using p fp idx by metis
qed

text \<open>
  C1. The claim is that for a matrix with at least one column
  \<open>convertMatrixToReactions\<close> builds one summary per column, its category given by
  \<open>getReactionSummaryCategory\<close>. Line 177 calls \<^verbatim>\<open>getReactionSummaryCategory(reactants,
  products)\<close> without \<^verbatim>\<open>self.\<close>; the name is bound in the class body only, so the call
  raises NameError in the first pass of the loop and no summary is returned. Here is the
  call on a matrix with the single column R1.
\<close>

theorem category_call_raises_NameError:
  "columns ex_one_column = [''R1'']
   \<and> convertMatrixToReactions cn_example ex_simple ex_one_column
       = Inl (NameError ''getReactionSummaryCategory'')"
  by code_simp

text \<open>
  C8. The claim is that \<open>convertMatrixToReactions\<close> splits each column by sign and returns
  one summary per column in column order. The two lists are built as claimed (for
  column R1 of the example: reactant A with coefficient 1 for the cell \<open>- 1\<close>, product B
  with coefficient 1 for the cell 1, nothing for the cell 0), but the same call of line
  177 then raises NameError, so that no list of summaries is returned for a matrix that
  has a column.
\<close>

theorem sign_partition_lost_to_NameError:
  "getitem_column ex_matrix ''R1'' = Inr (Series [''A'', ''B'', ''C''] [- 1, 1, 0])
   \<and> column_reactants ex_simple (Series [''A'', ''B'', ''C''] [- 1, 1, 0]) = Inr [entry ''A'' 1]
   \<and> column_products ex_simple (Series [''A'', ''B'', ''C''] [- 1, 1, 0]) = Inr [entry ''B'' 1]
   \<and> convertMatrixToReactions cn_example ex_simple ex_matrix
       = Inl (NameError ''getReactionSummaryCategory'')"
  by code_simp

end
